theory Spec2Isabelle
  imports Complex_Main "HOL-Library.Word" "HOL-Library.Signed_Division" "HOL-Library.Log_Nat"
begin

section \<open>JavaScript values\<close>

text \<open>
  The relayer is a Node.js service. Its inputs are JSON request bodies, so the values its
  functions receive are JavaScript values. A JavaScript string is a sequence of UTF-16
  code units and \<open>.length\<close> counts code units, so strings are lists of 16-bit words;
  \<open>str\<close> embeds an ASCII literal of the source.
\<close>

type_synonym jsstring = "16 word list"

definition str :: "string \<Rightarrow> jsstring" where
  "str s = map of_char s"

text \<open>
  A JavaScript number is an IEEE 754 double: not-a-number, an infinity, or a finite value,
  given here by its exact rational value (the sign of zero plays no role in this program).
\<close>

datatype jsnum = NaN | PosInfinity | NegInfinity | Finite rat

datatype jsval =
    JUndefined
  | JNull
  | JBool bool
  | JNum jsnum
  | JStr jsstring
  | JArr "jsval list"
  | JObj "(jsstring \<times> jsval) list"

text \<open>\<open>!v\<close>: the values JavaScript treats as false in a condition.\<close>

fun falsy :: "jsval \<Rightarrow> bool" where
  "falsy JUndefined = True"
| "falsy JNull = True"
| "falsy (JBool b) = (\<not> b)"
| "falsy (JNum n) = (n = NaN \<or> n = Finite 0)"
| "falsy (JStr s) = (s = [])"
| "falsy (JArr xs) = False"
| "falsy (JObj kvs) = False"

text \<open>
  A template literal \<open>`... ${v}`\<close> converts \<open>v\<close> to a string. For a value that came out
  of \<open>JSON.parse\<close> the conversion throws a TypeError exactly when it meets an object with
  an own property \<open>toString\<close> (a JSON value, hence not callable; \<open>valueOf\<close> then returns
  the object itself or is not callable either). Arrays convert their elements.
\<close>

fun throws_on_ToString :: "jsval \<Rightarrow> bool" where
  "throws_on_ToString (JObj kvs) = (str ''toString'' \<in> fst ` set kvs)"
| "throws_on_ToString (JArr xs) = (\<exists>x \<in> set xs. throws_on_ToString x)"
| "throws_on_ToString v = False"

subsection \<open>Double arithmetic\<close>

text \<open>
  \<open>executeTransaction\<close> multiplies the gas price multiplier by 100 in double arithmetic.
  \<open>to_double\<close> rounds a rational to the nearest double, ties to even, with gradual
  underflow and overflow to infinity, as IEEE 754 multiplication does.
\<close>

definition pow2 :: "int \<Rightarrow> rat" where
  "pow2 e = (if 0 \<le> e then 2 ^ nat e else 1 / 2 ^ nat (- e))"

text \<open>\<open>ilog2 x\<close> is the integer \<open>e\<close> with \<open>2 ^ e \<le> x < 2 ^ (e + 1)\<close>, for positive \<open>x\<close>.\<close>

definition ilog2 :: "rat \<Rightarrow> int" where
  "ilog2 x = (case quotient_of x of (a, b) \<Rightarrow>
     (let d = bitlen a - bitlen b in if pow2 d \<le> x then d else d - 1))"

definition round_half_even :: "rat \<Rightarrow> int" where
  "round_half_even y =
     (let f = \<lfloor>y\<rfloor>; r = y - of_int f
      in if r < 1 / 2 then f else if 1 / 2 < r then f + 1 else if even f then f else f + 1)"

definition to_double :: "rat \<Rightarrow> jsnum" where
  "to_double x =
     (if x = 0 then Finite 0
      else let q = max (ilog2 \<bar>x\<bar>) (- 1022) - 52;
               r = of_int (round_half_even (\<bar>x\<bar> / pow2 q)) * pow2 q
           in if pow2 1024 \<le> r then (if 0 < x then PosInfinity else NegInfinity)
              else Finite (sgn x * r))"

text \<open>\<open>a * b\<close> on numbers.\<close>

fun js_mul :: "jsnum \<Rightarrow> jsnum \<Rightarrow> jsnum" where
  "js_mul (Finite a) (Finite b) = to_double (a * b)"
| "js_mul NaN _ = NaN"
| "js_mul _ NaN = NaN"
| "js_mul (Finite a) PosInfinity = (if a = 0 then NaN else if 0 < a then PosInfinity else NegInfinity)"
| "js_mul (Finite a) NegInfinity = (if a = 0 then NaN else if 0 < a then NegInfinity else PosInfinity)"
| "js_mul PosInfinity (Finite b) = (if b = 0 then NaN else if 0 < b then PosInfinity else NegInfinity)"
| "js_mul NegInfinity (Finite b) = (if b = 0 then NaN else if 0 < b then NegInfinity else PosInfinity)"
| "js_mul PosInfinity PosInfinity = PosInfinity"
| "js_mul PosInfinity NegInfinity = NegInfinity"
| "js_mul NegInfinity PosInfinity = NegInfinity"
| "js_mul NegInfinity NegInfinity = PosInfinity"

text \<open>\<open>Math.floor\<close>: the floor of a finite double is a double.\<close>

fun Math_floor :: "jsnum \<Rightarrow> jsnum" where
  "Math_floor (Finite a) = Finite (of_int \<lfloor>a\<rfloor>)"
| "Math_floor n = n"

subsection \<open>Strings as numbers\<close>

text \<open>
  An arithmetic operator converts a string operand to a number. \<open>decimal_literal\<close>
  recognises the plain decimal literals, \<open>digits\<close> or \<open>digits.digits\<close>, and gives
  their decimal value; the number is the double nearest to it. Literals of more than 20
  digits, for which the language leaves the last bit to the implementation, and all
  other strings are not recognised here. Code unit 46 is the point, 48 to 57 are the
  digits.
\<close>

definition is_digit :: "16 word \<Rightarrow> bool" where
  "is_digit c = (48 \<le> c \<and> c \<le> 57)"

definition digits_value :: "jsstring \<Rightarrow> nat" where
  "digits_value ds = foldl (\<lambda>a c. 10 * a + (unat c - 48)) 0 ds"

definition decimal_literal :: "jsstring \<Rightarrow> rat option" where
  "decimal_literal s =
     (let ip = takeWhile (\<lambda>c. c \<noteq> 46) s; rest = dropWhile (\<lambda>c. c \<noteq> 46) s; fp = tl rest
      in if ip = [] \<or> \<not> list_all is_digit ip \<or> 20 < length ip + length fp then None
         else if rest = [] then Some (of_nat (digits_value ip))
         else if fp = [] \<or> \<not> list_all is_digit fp then None
         else Some (of_nat (digits_value (ip @ fp)) / 10 ^ length fp))"

section \<open>Errors and effects\<close>

text \<open>
  \<open>Error m\<close> is \<open>new Error(m)\<close> thrown by the relayer's own code; \<open>TypeError\<close> and
  \<open>RangeError\<close> are thrown by the JavaScript runtime; \<open>External m\<close> is an error thrown
  by a library call (the RPC client, the signature library, a runtime conversion of
  a string), with its message.
\<close>

datatype error = Error string | TypeError | RangeError | External jsstring

text \<open>\<open>BigInt(n)\<close> on a number: a RangeError unless the number is an integer.\<close>

fun NumberToBigInt :: "jsnum \<Rightarrow> error + int" where
  "NumberToBigInt (Finite a) = (if of_int \<lfloor>a\<rfloor> = a then Inr \<lfloor>a\<rfloor> else Inl RangeError)"
| "NumberToBigInt n = Inl RangeError"

text \<open>
  The service is a sequence of calls to its collaborators: the chain, through the RPC
  client, and the typed-data signature library. A computation returns the list of the
  external calls it made, in order, together with its outcome: \<open>Inl e\<close> when it threw
  \<open>e\<close>, \<open>Inr x\<close> when it returned \<open>x\<close>. An \<open>await\<close> of a call that rejects throws.
\<close>

record tx_request =
  functionName :: string
  args :: "jsval list"
  gas :: int
  gasPrice :: int

text \<open>
  The message each operation rebuilds for verification; the constructor is the primary
  type, the last field is the nonce.
\<close>

datatype typed_message =
    CreateEscrow jsstring int jsstring int int
  | FundEscrow jsval int
  | ConfirmDelivery jsval int
  | StoreDocument jsval jsval int

fun message_nonce :: "typed_message \<Rightarrow> int" where
  "message_nonce (CreateEscrow seller amount token deliveryDeadline nonce) = nonce"
| "message_nonce (FundEscrow escrowId nonce) = nonce"
| "message_nonce (ConfirmDelivery escrowId nonce) = nonce"
| "message_nonce (StoreDocument escrowId documentHash nonce) = nonce"

datatype event =
    ReadNonce jsval
  | ReadEscrowDetails jsval
  | ReadBalanceOf jsval
  | ReadAllowance jsval
  | GetBalance
  | VerifyTypedData jsval typed_message jsval
  | EstimateContractGas string "jsval list"
  | GetGasPrice
  | SimulateContract string "jsval list" int int
  | WriteContract tx_request
  | WaitForTransactionReceipt jsstring

type_synonym 'a io = "event list \<times> (error + 'a)"

definition ret :: "'a \<Rightarrow> 'a io" where
  "ret x = ([], Inr x)"

definition throw :: "error \<Rightarrow> 'a io" where
  "throw e = ([], Inl e)"

definition bind :: "'a io \<Rightarrow> ('a \<Rightarrow> 'b io) \<Rightarrow> 'b io" where
  "bind m f = (case m of
       (t, Inl e) \<Rightarrow> (t, Inl e)
     | (t, Inr x) \<Rightarrow> (case f x of (t', r) \<Rightarrow> (t @ t', r)))"

text \<open>\<open>try { m } catch (error) { h error }\<close>\<close>

definition catch :: "'a io \<Rightarrow> (error \<Rightarrow> 'a io) \<Rightarrow> 'a io" where
  "catch m h = (case m of
       (t, Inl e) \<Rightarrow> (case h e of (t', r) \<Rightarrow> (t @ t', r))
     | (t, Inr x) \<Rightarrow> (t, Inr x))"

text \<open>An awaited external call: one event, and the answer of the collaborator.\<close>

definition call :: "event \<Rightarrow> (jsstring + 'a) \<Rightarrow> 'a io" where
  "call ev answer = ([ev], case answer of Inl m \<Rightarrow> Inl (External m) | Inr x \<Rightarrow> Inr x)"

text \<open>A library or runtime function that computes locally: no event.\<close>

definition local :: "(jsstring + 'a) \<Rightarrow> 'a io" where
  "local answer = ([], case answer of Inl m \<Rightarrow> Inl (External m) | Inr x \<Rightarrow> Inr x)"

text \<open>\<open>console.log(`... ${v}`)\<close>: only the string conversion can fail.\<close>

definition log_template :: "jsval \<Rightarrow> unit io" where
  "log_template v = (if throws_on_ToString v then throw TypeError else ret ())"

section \<open>The collaborators\<close>

record escrow_details =
  ed_buyer :: jsstring
  ed_seller :: jsstring
  ed_amount :: int
  ed_deliveryDeadline :: int
  ed_status :: int
  ed_token :: jsstring
  ed_fundedAt :: int
  ed_settledAt :: int
  ed_disputeResolved :: bool

record log_entry =
  log_address :: jsstring
  topics :: "jsstring list"
  log_data :: jsstring

record receipt =
  transactionHash :: jsstring
  gasUsed :: int
  logs :: "log_entry list"

text \<open>
  Everything outside the repository is a parameter: what the chain answers to each read,
  estimate, simulation, submission and receipt wait; what the signature library answers;
  the runtime's conversions of strings; the process environment and the clock. Each
  answer is \<open>Inl message\<close> for a thrown error. Within one request every call to the
  chain and to the signature library is made at most once, so a function of the
  arguments describes any chain; the conversions are pure functions.
  \<open>StringToNumber\<close> is the runtime's conversion of the strings that are not plain
  decimal literals (signs, exponents, white space, other radices, text that is not a
  number). \<open>limiter_points_of s\<close> is the number of points the rate limiter works with
  when it is constructed with the string \<open>s\<close> as its \<open>points\<close> option.
\<close>

record world =
  nonces :: "jsval \<Rightarrow> jsstring + int"
  escrowDetails :: "jsval \<Rightarrow> jsstring + escrow_details"
  balanceOf :: "jsval \<Rightarrow> jsstring + int"
  allowance :: "jsval \<Rightarrow> jsstring + int"
  getBalance :: "jsstring + int"
  estimateContractGas :: "string \<Rightarrow> jsval list \<Rightarrow> jsstring + int"
  getGasPrice :: "jsstring + int"
  simulateContract :: "string \<Rightarrow> jsval list \<Rightarrow> int \<Rightarrow> int \<Rightarrow> jsstring + tx_request"
  writeContract :: "tx_request \<Rightarrow> jsstring + jsstring"
  waitForTransactionReceipt :: "jsstring \<Rightarrow> jsstring + receipt"
  verifyTypedData :: "jsval \<Rightarrow> typed_message \<Rightarrow> jsval \<Rightarrow> jsstring + bool"
  getAddress :: "jsval \<Rightarrow> jsstring + jsstring"
  BigInt_of :: "jsval \<Rightarrow> jsstring + int"
  StringToNumber :: "jsstring \<Rightarrow> jsnum"
  limiter_points_of :: "jsstring \<Rightarrow> jsnum"
  eventSig :: jsstring
  GAS_PRICE_MULTIPLIER :: "jsstring option"
  API_KEY :: "jsstring option"
  RATE_LIMIT :: "jsstring option"
  now_ms :: nat
  now_iso :: jsstring
  uptime :: jsnum

text \<open>
  \<open>BigInt(v)\<close>: on a number it is \<open>NumberToBigInt\<close>; on any other value it is the
  runtime's conversion, a parameter.
\<close>

definition js_BigInt :: "world \<Rightarrow> jsval \<Rightarrow> int io" where
  "js_BigInt w v = (case v of
       JNum n \<Rightarrow> (case NumberToBigInt n of Inl e \<Rightarrow> throw e | Inr i \<Rightarrow> ret i)
     | _ \<Rightarrow> local (BigInt_of w v))"

text \<open>\<open>process.env.X || d\<close>: an unset or empty variable gives the default.\<close>

definition env_or :: "jsstring option \<Rightarrow> 'a \<Rightarrow> (jsstring \<Rightarrow> 'a) \<Rightarrow> 'a" where
  "env_or v d f = (case v of None \<Rightarrow> d | Some s \<Rightarrow> if s = [] then d else f s)"

text \<open>The number a string operand of \<open>*\<close> stands for.\<close>

definition ToNumber :: "world \<Rightarrow> jsstring \<Rightarrow> jsnum" where
  "ToNumber w s = (case decimal_literal s of Some q \<Rightarrow> to_double q | None \<Rightarrow> StringToNumber w s)"

section \<open>services/contracts.js\<close>

definition getNonce :: "world \<Rightarrow> jsval \<Rightarrow> int io" where
  "getNonce w address = call (ReadNonce address) (nonces w address)"

definition getEscrowDetails :: "world \<Rightarrow> jsval \<Rightarrow> escrow_details io" where
  "getEscrowDetails w escrowId = call (ReadEscrowDetails escrowId) (escrowDetails w escrowId)"

definition getUserBalance :: "world \<Rightarrow> jsval \<Rightarrow> int io" where
  "getUserBalance w address = call (ReadBalanceOf address) (balanceOf w address)"

definition getUserAllowance :: "world \<Rightarrow> jsval \<Rightarrow> int io" where
  "getUserAllowance w address = call (ReadAllowance address) (allowance w address)"

definition getRelayerBalance :: "world \<Rightarrow> int io" where
  "getRelayerBalance w = call GetBalance (getBalance w)"

text \<open>
  \<open>methodMap\<close>, the same object literal in \<open>estimateGas\<close> and \<open>executeTransaction\<close>.
  The callers in relayer.js pass one of its four keys, and only they call the two
  functions. The lookup below is that of the four own keys: a name the object inherits
  (\<open>constructor\<close>, \<open>toString\<close>, ...) would read as a value that is not a string, which
  no caller passes and the model leaves out.
\<close>

definition methodMap :: "(string \<times> string) list" where
  "methodMap =
     [(''relayCreateEscrow'', ''relayCreateEscrow''),
      (''relayFundEscrow'', ''relayFundEscrow''),
      (''relayConfirmDelivery'', ''relayConfirmDelivery''),
      (''relayStoreDocument'', ''relayStoreDocument'')]"

text \<open>The \<open>catch\<close> blocks of both functions log and rethrow the same error.\<close>

definition estimateGas :: "world \<Rightarrow> string \<Rightarrow> jsval list \<Rightarrow> int io" where
  "estimateGas w method params =
     catch
       (case map_of methodMap method of
          None \<Rightarrow> throw (Error (''Unknown method: '' @ method))
        | Some fname \<Rightarrow>
            call (EstimateContractGas fname params) (estimateContractGas w fname params))
       (\<lambda>error. throw error)"

text \<open>
  \<open>(process.env.GAS_PRICE_MULTIPLIER || 1.1) * 100\<close>, floored. A configured
  multiplier is a string, which the multiplication converts to a number; the product is
  a product of doubles.
\<close>

definition multiplier :: "world \<Rightarrow> jsnum" where
  "multiplier w = env_or (GAS_PRICE_MULTIPLIER w) (to_double (11 / 10)) (ToNumber w)"

definition multiplier_percent :: "world \<Rightarrow> jsnum" where
  "multiplier_percent w = Math_floor (js_mul (multiplier w) (Finite 100))"

text \<open>
  \<open>gasPrice * BigInt(...) / BigInt(100)\<close>: BigInt division truncates towards zero
  (\<open>sdiv\<close>).
\<close>

definition adjustedGasPrice :: "world \<Rightarrow> int \<Rightarrow> int io" where
  "adjustedGasPrice w gp =
     (case NumberToBigInt (multiplier_percent w) of
        Inl e \<Rightarrow> throw e
      | Inr k \<Rightarrow> ret ((gp * k) sdiv 100))"

definition executeTransaction :: "world \<Rightarrow> string \<Rightarrow> jsval list \<Rightarrow> int \<Rightarrow> receipt io" where
  "executeTransaction w method params gasLimit =
     catch
       (bind (call GetGasPrice (getGasPrice w)) (\<lambda>gp.
        bind (adjustedGasPrice w gp) (\<lambda>adjusted.
        case map_of methodMap method of
          None \<Rightarrow> throw (Error (''Unknown method: '' @ method))
        | Some fname \<Rightarrow>
            bind (catch
                    (call (SimulateContract fname params gasLimit adjusted)
                       (simulateContract w fname params gasLimit adjusted))
                    (\<lambda>simError. throw simError)) (\<lambda>request.
            bind (catch
                    (call (WriteContract request) (writeContract w request))
                    (\<lambda>writeError. throw writeError)) (\<lambda>hash.
            bind (call (WaitForTransactionReceipt hash) (waitForTransactionReceipt w hash))
              (\<lambda>receipt.
            ret receipt))))))
       (\<lambda>error. throw error)"

section \<open>services/relayer.js\<close>

text \<open>\<open>!v.startsWith('0x') || v.length !== n\<close>; a value that is not a string has no
  method \<open>startsWith\<close>, and calling it throws a TypeError.\<close>

definition bad_hex_format :: "jsval \<Rightarrow> nat \<Rightarrow> bool io" where
  "bad_hex_format v n = (case v of
       JStr s \<Rightarrow> ret (take 2 s \<noteq> str ''0x'' \<or> length s \<noteq> n)
     | _ \<Rightarrow> throw TypeError)"

text \<open>\<open>parseEther('0.01')\<close>, in wei.\<close>

definition parseEther_0_01 :: int where
  "parseEther_0_01 = 10000000000000000"

text \<open>\<open>n.toString()\<close> of a BigInt: its decimal numeral.\<close>

fun decimal :: "nat \<Rightarrow> jsstring" where
  "decimal n = (if n < 10 then [of_nat (48 + n)] else decimal (n div 10) @ [of_nat (48 + n mod 10)])"

declare decimal.simps [simp del]

definition BigInt_toString :: "int \<Rightarrow> jsstring" where
  "BigInt_toString i = (if i < 0 then str ''-'' @ decimal (nat (- i)) else decimal (nat i))"

text \<open>\<open>xs[i]\<close>: \<open>undefined\<close> (\<open>None\<close>) out of range.\<close>

definition js_index :: "'a list \<Rightarrow> nat \<Rightarrow> 'a option" where
  "js_index xs i = (if i < length xs then Some (xs ! i) else None)"

text \<open>
  \<open>extractEscrowIdFromLogs\<close>. The event signature
  \<open>keccak256(toHex('EscrowCreated(bytes32,address,address,uint256,uint256)'))\<close> is a
  constant of the hash library, the parameter \<open>sig\<close>.
\<close>

fun extractEscrowIdFromLogs :: "jsstring \<Rightarrow> log_entry list \<Rightarrow> error + jsstring option" where
  "extractEscrowIdFromLogs sig [] =
     Inl (Error ''EscrowCreated event not found in transaction logs'')"
| "extractEscrowIdFromLogs sig (l # ls) =
     (if topics l \<noteq> [] \<and> hd (topics l) = sig then Inr (js_index (topics l) 1)
      else extractEscrowIdFromLogs sig ls)"

record create_escrow_result =
  ce_success :: bool
  ce_escrowId :: "jsstring option"
  ce_transactionHash :: jsstring
  ce_gasUsed :: jsstring

record relay_result =
  rr_success :: bool
  rr_transactionHash :: jsstring
  rr_gasUsed :: jsstring

definition relayCreateEscrow ::
  "world \<Rightarrow> jsval \<Rightarrow> jsval \<Rightarrow> jsval \<Rightarrow> jsval \<Rightarrow> jsval \<Rightarrow> jsval \<Rightarrow> create_escrow_result io" where
  "relayCreateEscrow w seller amount token deliveryDeadline buyer signature =
     bind (log_template buyer) (\<lambda>_.
     bind (bad_hex_format signature 132) (\<lambda>bad.
     if bad then throw (Error ''Invalid signature format'') else
     bind (getNonce w buyer) (\<lambda>nonce.
     bind (local (getAddress w seller)) (\<lambda>m_seller.
     bind (js_BigInt w amount) (\<lambda>m_amount.
     bind (local (getAddress w token)) (\<lambda>m_token.
     bind (js_BigInt w deliveryDeadline) (\<lambda>m_deliveryDeadline.
     bind (call (VerifyTypedData buyer
                   (CreateEscrow m_seller m_amount m_token m_deliveryDeadline nonce) signature)
             (verifyTypedData w buyer
                (CreateEscrow m_seller m_amount m_token m_deliveryDeadline nonce) signature))
       (\<lambda>isValid.
     if \<not> isValid then throw (Error ''Invalid signature'') else
     bind (log_template buyer) (\<lambda>_.
     bind (getRelayerBalance w) (\<lambda>balance.
     if balance < parseEther_0_01 then throw (Error ''Relayer balance too low'') else
     bind (estimateGas w ''relayCreateEscrow''
             [seller, amount, token, deliveryDeadline, buyer, signature]) (\<lambda>gasLimit.
     bind (executeTransaction w ''relayCreateEscrow''
             [seller, amount, token, deliveryDeadline, buyer, signature] gasLimit) (\<lambda>receipt.
     bind (catch
             (case extractEscrowIdFromLogs (eventSig w) (logs receipt) of
                Inl e \<Rightarrow> throw e
              | Inr i \<Rightarrow> ret i)
             (\<lambda>error. ret (Some (transactionHash receipt)))) (\<lambda>escrowId.
     ret \<lparr>ce_success = True,
          ce_escrowId = escrowId,
          ce_transactionHash = transactionHash receipt,
          ce_gasUsed = BigInt_toString (gasUsed receipt)\<rparr>)))))))))))))"

definition relayFundEscrow :: "world \<Rightarrow> jsval \<Rightarrow> jsval \<Rightarrow> jsval \<Rightarrow> relay_result io" where
  "relayFundEscrow w escrowId buyer signature =
     bind (log_template escrowId) (\<lambda>_.
     bind (getNonce w buyer) (\<lambda>nonce.
     bind (call (VerifyTypedData buyer (FundEscrow escrowId nonce) signature)
             (verifyTypedData w buyer (FundEscrow escrowId nonce) signature)) (\<lambda>isValid.
     if \<not> isValid then throw (Error ''Invalid signature'') else
     bind (log_template buyer) (\<lambda>_.
     bind (getEscrowDetails w escrowId) (\<lambda>details.
     bind (getUserBalance w buyer) (\<lambda>userBalance.
     bind (getUserAllowance w buyer) (\<lambda>userAllowance.
     if userBalance < ed_amount details then throw (Error ''Insufficient USDC balance'') else
     if userAllowance < ed_amount details then throw (Error ''Insufficient USDC allowance'') else
     bind (estimateGas w ''relayFundEscrow'' [escrowId, buyer, signature]) (\<lambda>gasLimit.
     bind (executeTransaction w ''relayFundEscrow'' [escrowId, buyer, signature] gasLimit)
       (\<lambda>receipt.
     ret \<lparr>rr_success = True,
          rr_transactionHash = transactionHash receipt,
          rr_gasUsed = BigInt_toString (gasUsed receipt)\<rparr>)))))))))"

definition relayConfirmDelivery :: "world \<Rightarrow> jsval \<Rightarrow> jsval \<Rightarrow> jsval \<Rightarrow> relay_result io" where
  "relayConfirmDelivery w escrowId buyer signature =
     bind (log_template escrowId) (\<lambda>_.
     bind (getNonce w buyer) (\<lambda>nonce.
     bind (call (VerifyTypedData buyer (ConfirmDelivery escrowId nonce) signature)
             (verifyTypedData w buyer (ConfirmDelivery escrowId nonce) signature)) (\<lambda>isValid.
     if \<not> isValid then throw (Error ''Invalid signature'') else
     bind (log_template buyer) (\<lambda>_.
     bind (estimateGas w ''relayConfirmDelivery'' [escrowId, buyer, signature]) (\<lambda>gasLimit.
     bind (executeTransaction w ''relayConfirmDelivery'' [escrowId, buyer, signature] gasLimit)
       (\<lambda>receipt.
     ret \<lparr>rr_success = True,
          rr_transactionHash = transactionHash receipt,
          rr_gasUsed = BigInt_toString (gasUsed receipt)\<rparr>))))))"

definition relayStoreDocument ::
  "world \<Rightarrow> jsval \<Rightarrow> jsval \<Rightarrow> jsval \<Rightarrow> jsval \<Rightarrow> relay_result io" where
  "relayStoreDocument w escrowId documentHash seller signature =
     bind (log_template escrowId) (\<lambda>_.
     bind (bad_hex_format documentHash 66) (\<lambda>bad.
     if bad then throw (Error ''Invalid document hash format'') else
     bind (getNonce w seller) (\<lambda>nonce.
     bind (call (VerifyTypedData seller (StoreDocument escrowId documentHash nonce) signature)
             (verifyTypedData w seller (StoreDocument escrowId documentHash nonce) signature))
       (\<lambda>isValid.
     if \<not> isValid then throw (Error ''Invalid signature'') else
     bind (log_template seller) (\<lambda>_.
     bind (estimateGas w ''relayStoreDocument'' [escrowId, documentHash, seller, signature])
       (\<lambda>gasLimit.
     bind (executeTransaction w ''relayStoreDocument''
             [escrowId, documentHash, seller, signature] gasLimit) (\<lambda>receipt.
     ret \<lparr>rr_success = True,
          rr_transactionHash = transactionHash receipt,
          rr_gasUsed = BigInt_toString (gasUsed receipt)\<rparr>)))))))"

text \<open>
  The four relay operations under one name: a relay request is one of four variants, and
  index.js hands each to its service method.
\<close>

datatype relay_request =
    CreateEscrowRequest jsval jsval jsval jsval jsval jsval
  | FundEscrowRequest jsval jsval jsval
  | ConfirmDeliveryRequest jsval jsval jsval
  | StoreDocumentRequest jsval jsval jsval jsval

datatype relay_response = Created create_escrow_result | Relayed relay_result

fun relay :: "world \<Rightarrow> relay_request \<Rightarrow> relay_response io" where
  "relay w (CreateEscrowRequest seller amount token deliveryDeadline buyer signature) =
     bind (relayCreateEscrow w seller amount token deliveryDeadline buyer signature)
       (\<lambda>r. ret (Created r))"
| "relay w (FundEscrowRequest escrowId buyer signature) =
     bind (relayFundEscrow w escrowId buyer signature) (\<lambda>r. ret (Relayed r))"
| "relay w (ConfirmDeliveryRequest escrowId buyer signature) =
     bind (relayConfirmDelivery w escrowId buyer signature) (\<lambda>r. ret (Relayed r))"
| "relay w (StoreDocumentRequest escrowId documentHash seller signature) =
     bind (relayStoreDocument w escrowId documentHash seller signature) (\<lambda>r. ret (Relayed r))"

text \<open>The address whose nonce and signature a request is checked against, and its signature.\<close>

fun actor :: "relay_request \<Rightarrow> jsval" where
  "actor (CreateEscrowRequest seller amount token deliveryDeadline buyer signature) = buyer"
| "actor (FundEscrowRequest escrowId buyer signature) = buyer"
| "actor (ConfirmDeliveryRequest escrowId buyer signature) = buyer"
| "actor (StoreDocumentRequest escrowId documentHash seller signature) = seller"

fun signature_of :: "relay_request \<Rightarrow> jsval" where
  "signature_of (CreateEscrowRequest seller amount token deliveryDeadline buyer signature) = signature"
| "signature_of (FundEscrowRequest escrowId buyer signature) = signature"
| "signature_of (ConfirmDeliveryRequest escrowId buyer signature) = signature"
| "signature_of (StoreDocumentRequest escrowId documentHash seller signature) = signature"

section \<open>index.js\<close>

text \<open>
  What the middleware and the route handlers read of a request: \<open>req.path\<close>, the
  \<open>x-api-key\<close> header (\<open>None\<close> when absent), \<open>req.ip\<close>, and the parsed JSON body, whose
  absent fields read as \<open>undefined\<close>.
\<close>

record request =
  path :: jsstring
  x_api_key :: "jsstring option"
  ip :: jsstring
  body :: "jsstring \<rightharpoonup> jsval"

definition field :: "request \<Rightarrow> string \<Rightarrow> jsval" where
  "field req name = (case body req (str name) of None \<Rightarrow> JUndefined | Some v \<Rightarrow> v)"

datatype resp_body =
    ErrorBody string
  | TooManyRequestsBody nat
  | HealthBody string jsstring jsnum
  | FailedToRelayBody error
  | CreateEscrowBody create_escrow_result
  | RelayBody relay_result

record response =
  status :: nat
  json :: resp_body

subsection \<open>The rate limiter\<close>

text \<open>
  Modelled from the spec: the rate limiter is a library class (\<open>RateLimiterMemory\<close>)
  whose code is not in the repository. Section 4.6 of the specification describes it:
  process-wide state tracking consumed points per client identity within a window,
  \<open>consume(identity)\<close> answering allowed, or rejected with the time until the window ends;
  the state resets per window. The state maps an identity to the points consumed in its
  current window and the time (in milliseconds) the window ends.
\<close>

type_synonym limiter = "jsstring \<rightharpoonup> nat \<times> nat"

text \<open>\<open>consumed > points\<close>, on numbers.\<close>

fun exceeds :: "nat \<Rightarrow> jsnum \<Rightarrow> bool" where
  "exceeds c (Finite p) = (p < of_nat c)"
| "exceeds c NegInfinity = True"
| "exceeds c PosInfinity = False"
| "exceeds c NaN = False"

definition consume :: "jsnum \<Rightarrow> nat \<Rightarrow> nat \<Rightarrow> limiter \<Rightarrow> jsstring \<Rightarrow> (nat + unit) \<times> limiter" where
  "consume points duration now st key =
     (let (c, e) = (case st key of
                      None \<Rightarrow> (1, now + duration * 1000)
                    | Some (c, e) \<Rightarrow> if now < e then (c + 1, e) else (1, now + duration * 1000))
      in (if exceeds c points then Inl (e - now) else Inr (), st(key \<mapsto> (c, e))))"

text \<open>
  \<open>points: process.env.RATE_LIMIT || 100, duration: 3600\<close>. A configured limit
  reaches the limiter as the string it is; what the limiter makes of it is the
  limiter's.
\<close>

definition rateLimiter_points :: "world \<Rightarrow> jsnum" where
  "rateLimiter_points w = env_or (RATE_LIMIT w) (Finite 100) (limiter_points_of w)"

definition rateLimiter_duration :: nat where
  "rateLimiter_duration = 3600"

subsection \<open>Middleware\<close>

text \<open>
  A handler takes the limiter state and gives the response, the external calls made, and
  the new limiter state. A middleware either responds or calls \<open>next\<close>.
\<close>

type_synonym handler = "limiter \<Rightarrow> response \<times> event list \<times> limiter"

definition respond :: "nat \<Rightarrow> resp_body \<Rightarrow> handler" where
  "respond code b st = (\<lparr>status = code, json = b\<rparr>, [], st)"

definition apiKeyMiddleware :: "world \<Rightarrow> request \<Rightarrow> handler \<Rightarrow> handler" where
  "apiKeyMiddleware w req next =
     (if path req = str ''/health'' then next
      else if env_or (API_KEY w) False (\<lambda>key. x_api_key req \<noteq> Some key)
           then respond 401 (ErrorBody ''Invalid API key'')
           else next)"

text \<open>\<open>Math.round(rejRes.msBeforeNext / 1000)\<close> rounds halves up.\<close>

definition rateLimitMiddleware :: "world \<Rightarrow> request \<Rightarrow> handler \<Rightarrow> handler" where
  "rateLimitMiddleware w req next st =
     (case consume (rateLimiter_points w) rateLimiter_duration (now_ms w) st (ip req) of
        (Inr _, st') \<Rightarrow> next st'
      | (Inl msBeforeNext, st') \<Rightarrow>
          respond 429 (TooManyRequestsBody ((msBeforeNext + 500) div 1000)) st')"

subsection \<open>Route handlers\<close>

definition health :: "world \<Rightarrow> request \<Rightarrow> handler" where
  "health w req = respond 200 (HealthBody ''healthy'' (now_iso w) (uptime w))"

text \<open>The \<open>try\<close>/\<open>catch\<close> of a relay route: the result as JSON, or status 500 with the
  error's message as \<open>details\<close>.\<close>

definition relay_outcome :: "'a io \<Rightarrow> ('a \<Rightarrow> resp_body) \<Rightarrow> handler" where
  "relay_outcome m to_body st = (case m of
       (t, Inr result) \<Rightarrow> (\<lparr>status = 200, json = to_body result\<rparr>, t, st)
     | (t, Inl e) \<Rightarrow> (\<lparr>status = 500, json = FailedToRelayBody e\<rparr>, t, st))"

definition post_create_escrow :: "world \<Rightarrow> request \<Rightarrow> handler" where
  "post_create_escrow w req =
     (let seller = field req ''seller''; amount = field req ''amount'';
          token = field req ''token''; deliveryDeadline = field req ''deliveryDeadline'';
          buyer = field req ''buyer''; signature = field req ''signature''
      in if falsy seller \<or> falsy amount \<or> falsy token \<or> falsy deliveryDeadline
            \<or> falsy buyer \<or> falsy signature
         then respond 400 (ErrorBody ''Missing required fields'')
         else relay_outcome
                (relayCreateEscrow w seller amount token deliveryDeadline buyer signature)
                CreateEscrowBody)"

definition post_fund_escrow :: "world \<Rightarrow> request \<Rightarrow> handler" where
  "post_fund_escrow w req =
     (let escrowId = field req ''escrowId''; buyer = field req ''buyer'';
          signature = field req ''signature''
      in if falsy escrowId \<or> falsy buyer \<or> falsy signature
         then respond 400 (ErrorBody ''Missing required fields'')
         else relay_outcome (relayFundEscrow w escrowId buyer signature) RelayBody)"

definition post_confirm_delivery :: "world \<Rightarrow> request \<Rightarrow> handler" where
  "post_confirm_delivery w req =
     (let escrowId = field req ''escrowId''; buyer = field req ''buyer'';
          signature = field req ''signature''
      in if falsy escrowId \<or> falsy buyer \<or> falsy signature
         then respond 400 (ErrorBody ''Missing required fields'')
         else relay_outcome (relayConfirmDelivery w escrowId buyer signature) RelayBody)"

definition post_store_document :: "world \<Rightarrow> request \<Rightarrow> handler" where
  "post_store_document w req =
     (let escrowId = field req ''escrowId''; documentHash = field req ''documentHash'';
          seller = field req ''seller''; signature = field req ''signature''
      in if falsy escrowId \<or> falsy documentHash \<or> falsy seller \<or> falsy signature
         then respond 400 (ErrorBody ''Missing required fields'')
         else relay_outcome (relayStoreDocument w escrowId documentHash seller signature)
                RelayBody)"

text \<open>
  Express runs a request through the middleware in the order of the \<open>app.use\<close> calls and
  then through the handler of the route it matches. The first three middleware
  (\<open>helmet\<close>, \<open>cors\<close>, \<open>express.json\<close>) set response headers and parse the body;
  the model starts after them, with the body parsed. \<open>serve w req h\<close> is the answer to a
  request that matches the route with handler \<open>h\<close>.
\<close>

definition serve :: "world \<Rightarrow> request \<Rightarrow> (world \<Rightarrow> request \<Rightarrow> handler) \<Rightarrow> handler" where
  "serve w req h = apiKeyMiddleware w req (rateLimitMiddleware w req (h w req))"

section \<open>Observations on the calls of a request\<close>

fun is_write :: "event \<Rightarrow> bool" where
  "is_write (WriteContract rq) = True"
| "is_write ev = False"

fun is_estimate :: "event \<Rightarrow> bool" where
  "is_estimate (EstimateContractGas f ps) = True"
| "is_estimate ev = False"

fun is_simulate :: "event \<Rightarrow> bool" where
  "is_simulate (SimulateContract f ps g p) = True"
| "is_simulate ev = False"

fun is_verify :: "event \<Rightarrow> bool" where
  "is_verify (VerifyTypedData a m s) = True"
| "is_verify ev = False"

text \<open>The reads of balance, allowance and contract status.\<close>

fun is_preflight_read :: "event \<Rightarrow> bool" where
  "is_preflight_read (ReadEscrowDetails i) = True"
| "is_preflight_read (ReadBalanceOf a) = True"
| "is_preflight_read (ReadAllowance a) = True"
| "is_preflight_read GetBalance = True"
| "is_preflight_read ev = False"

text \<open>The number of on-chain writes a request issued.\<close>

definition submissions :: "event list \<Rightarrow> nat" where
  "submissions t = length (filter is_write t)"

text \<open>
  \<open>answered w ev\<close>: the collaborator answered the call \<open>ev\<close> without an error, and for
  a signature verification the answer was \<open>true\<close>.
\<close>

fun answered :: "world \<Rightarrow> event \<Rightarrow> bool" where
  "answered w (ReadNonce a) = (\<not> isl (nonces w a))"
| "answered w (ReadEscrowDetails i) = (\<not> isl (escrowDetails w i))"
| "answered w (ReadBalanceOf a) = (\<not> isl (balanceOf w a))"
| "answered w (ReadAllowance a) = (\<not> isl (allowance w a))"
| "answered w GetBalance = (\<not> isl (getBalance w))"
| "answered w (VerifyTypedData a m s) = (verifyTypedData w a m s = Inr True)"
| "answered w (EstimateContractGas f ps) = (\<not> isl (estimateContractGas w f ps))"
| "answered w GetGasPrice = (\<not> isl (getGasPrice w))"
| "answered w (SimulateContract f ps g p) = (\<not> isl (simulateContract w f ps g p))"
| "answered w (WriteContract rq) = (\<not> isl (writeContract w rq))"
| "answered w (WaitForTransactionReceipt h) = (\<not> isl (waitForTransactionReceipt w h))"

text \<open>
  A value of the shape the relayer's two format checks ask for: a string of length \<open>n\<close>
  that starts with \<open>0x\<close>.
\<close>

definition well_formed_hex :: "jsval \<Rightarrow> nat \<Rightarrow> bool" where
  "well_formed_hex v n = (case v of JStr s \<Rightarrow> take 2 s = str ''0x'' \<and> length s = n | _ \<Rightarrow> False)"

text \<open>
  The checks the relayer itself makes before gas estimation, per variant: the format of
  the signature and the floor on the relayer's balance (create), balance and allowance
  against the escrow amount (fund), the format of the document hash (store).
\<close>

fun checks_passed :: "world \<Rightarrow> relay_request \<Rightarrow> bool" where
  "checks_passed w (CreateEscrowRequest seller amount token deliveryDeadline buyer signature) =
     (well_formed_hex signature 132
      \<and> (case getBalance w of Inl m \<Rightarrow> False | Inr b \<Rightarrow> parseEther_0_01 \<le> b))"
| "checks_passed w (FundEscrowRequest escrowId buyer signature) =
     (case escrowDetails w escrowId of Inl m \<Rightarrow> False | Inr d \<Rightarrow>
      (case balanceOf w buyer of Inl m \<Rightarrow> False | Inr b \<Rightarrow>
       (case allowance w buyer of Inl m \<Rightarrow> False | Inr a \<Rightarrow>
          ed_amount d \<le> b \<and> ed_amount d \<le> a)))"
| "checks_passed w (ConfirmDeliveryRequest escrowId buyer signature) = True"
| "checks_passed w (StoreDocumentRequest escrowId documentHash seller signature) =
     well_formed_hex documentHash 66"

text \<open>
  \<open>thrown_by_submission w t e\<close>: the trace \<open>t\<close> ends with a submission that the chain
  rejected with \<open>e\<close>, or with the wait for the receipt of a submission that failed with
  \<open>e\<close>.
\<close>

definition thrown_by_submission :: "world \<Rightarrow> event list \<Rightarrow> error \<Rightarrow> bool" where
  "thrown_by_submission w t e =
     ((\<exists>rq m. t \<noteq> [] \<and> last t = WriteContract rq \<and> writeContract w rq = Inl m \<and> e = External m)
      \<or> (\<exists>rq h m. 2 \<le> length t \<and> last t = WaitForTransactionReceipt h
            \<and> last (butlast t) = WriteContract rq \<and> writeContract w rq = Inr h
            \<and> waitForTransactionReceipt w h = Inl m \<and> e = External m))"

text \<open>
  \<open>nonce_discipline\<close>: a signature verification is the second call of the request, right
  after the read of the actor's nonce, and is made on a message carrying the nonce just
  read; a rejected verification ends the request with \<open>Invalid signature\<close>; a request
  that never verifies submits nothing and fails.
\<close>

definition nonce_discipline :: "world \<Rightarrow> relay_request \<Rightarrow> event list \<times> (error + 'a) \<Rightarrow> bool" where
  "nonce_discipline w req r =
     ((\<forall>a m s. VerifyTypedData a m s \<in> set (fst r) \<longrightarrow>
         a = actor req \<and> s = signature_of req \<and> nonces w (actor req) = Inr (message_nonce m)
         \<and> take 2 (fst r) = [ReadNonce (actor req), VerifyTypedData a m s]
         \<and> (verifyTypedData w a m s = Inr False \<longrightarrow>
              fst r = [ReadNonce (actor req), VerifyTypedData a m s]
              \<and> snd r = Inl (Error ''Invalid signature'')))
      \<and> (\<not> list_ex is_verify (fst r) \<longrightarrow> submissions (fst r) = 0 \<and> isl (snd r)))"

text \<open>
  \<open>submission_discipline\<close>: at most one write, in at most one run of
  \<open>executeTransaction\<close> (which starts by reading the gas price); a request that
  succeeds wrote once; a write comes only after the nonce read, the verification, the
  gas estimation and the simulation, all answered, and after the relayer's own checks; a
  request that wrote and failed, failed in the write or in the wait for its receipt.
\<close>

definition submission_discipline ::
  "world \<Rightarrow> relay_request \<Rightarrow> event list \<times> (error + 'a) \<Rightarrow> bool" where
  "submission_discipline w req r =
     (submissions (fst r) \<le> 1
      \<and> length (filter (\<lambda>ev. ev = GetGasPrice) (fst r)) \<le> 1
      \<and> (\<not> isl (snd r) \<longrightarrow> submissions (fst r) = 1)
      \<and> (0 < submissions (fst r) \<longrightarrow>
           list_all (answered w) (takeWhile (\<lambda>ev. \<not> is_write ev) (fst r))
           \<and> ReadNonce (actor req) \<in> set (takeWhile (\<lambda>ev. \<not> is_write ev) (fst r))
           \<and> list_ex is_verify (takeWhile (\<lambda>ev. \<not> is_write ev) (fst r))
           \<and> list_ex is_estimate (takeWhile (\<lambda>ev. \<not> is_write ev) (fst r))
           \<and> list_ex is_simulate (takeWhile (\<lambda>ev. \<not> is_write ev) (fst r))
           \<and> checks_passed w req)
      \<and> (\<forall>e. snd r = Inl e \<and> 0 < submissions (fst r) \<longrightarrow> thrown_by_submission w (fst r) e))"

text \<open>
  \<open>wp m Q\<close>: the postcondition \<open>Q\<close> holds of the calls and the outcome of the computation
  \<open>m\<close>. It turns a property of a sequence of calls into one condition per way the sequence
  can end.
\<close>

definition wp :: "'a io \<Rightarrow> (event list \<Rightarrow> error + 'a \<Rightarrow> bool) \<Rightarrow> bool" where
  "wp m Q = Q (fst m) (snd m)"

text \<open>The required fields of the four relay routes, as their handlers test them.\<close>

definition create_escrow_fields :: "string list" where
  "create_escrow_fields =
     [''seller'', ''amount'', ''token'', ''deliveryDeadline'', ''buyer'', ''signature'']"

definition fund_escrow_fields :: "string list" where
  "fund_escrow_fields = [''escrowId'', ''buyer'', ''signature'']"

definition confirm_delivery_fields :: "string list" where
  "confirm_delivery_fields = [''escrowId'', ''buyer'', ''signature'']"

definition store_document_fields :: "string list" where
  "store_document_fields = [''escrowId'', ''documentHash'', ''seller'', ''signature'']"

text \<open>The same request with one field left out of the body.\<close>

definition without_field :: "request \<Rightarrow> string \<Rightarrow> request" where
  "without_field req name = req\<lparr>body := (body req)(str name := None)\<rparr>"

section \<open>A sample chain and sample requests\<close>

text \<open>
  A chain on which every call succeeds: the nonce of every account is 7, every escrow is
  for 1000 token units, every account holds and has approved 5000, the relayer holds one
  ether. The signature library accepts a signature exactly for messages with nonce 7, as
  it does for a signature that was produced over nonce 7. No environment variable is set.
\<close>

definition sample_details :: escrow_details where
  "sample_details =
     \<lparr>ed_buyer = str ''0xb0b'', ed_seller = str ''0x5e1'', ed_amount = 1000,
      ed_deliveryDeadline = 1700000000, ed_status = 0, ed_token = str ''0x70c'',
      ed_fundedAt = 0, ed_settledAt = 0, ed_disputeResolved = False\<rparr>"

definition sample_world :: world where
  "sample_world =
     \<lparr>nonces = (\<lambda>a. Inr 7),
      escrowDetails = (\<lambda>i. Inr sample_details),
      balanceOf = (\<lambda>a. Inr 5000),
      allowance = (\<lambda>a. Inr 5000),
      getBalance = Inr 1000000000000000000,
      estimateContractGas = (\<lambda>f ps. Inr 150000),
      getGasPrice = Inr 1000000007,
      simulateContract = (\<lambda>f ps g p. Inr \<lparr>functionName = f, args = ps, gas = g, gasPrice = p\<rparr>),
      writeContract = (\<lambda>rq. Inr (str ''0x7a6'')),
      waitForTransactionReceipt = (\<lambda>h. Inr \<lparr>transactionHash = h, gasUsed = 21000, logs = []\<rparr>),
      verifyTypedData = (\<lambda>a m s. Inr (message_nonce m = 7)),
      getAddress = (\<lambda>v. case v of JStr s \<Rightarrow> Inr s | _ \<Rightarrow> Inl (str ''invalid address'')),
      BigInt_of = (\<lambda>v. Inl (str ''cannot convert to BigInt'')),
      StringToNumber = (\<lambda>s. NaN),
      limiter_points_of = (\<lambda>s. Finite 4),
      eventSig = str ''0xe5c'',
      GAS_PRICE_MULTIPLIER = None,
      API_KEY = None,
      RATE_LIMIT = None,
      now_ms = 1000,
      now_iso = str ''2024-01-01T00:00:01.000Z'',
      uptime = Finite 1\<rparr>"

text \<open>A signature of the right shape: \<open>0x\<close> and 130 more characters.\<close>

definition sample_signature :: jsval where
  "sample_signature = JStr (str ''0x'' @ replicate 130 (of_char CHR ''a''))"

definition sample_id :: jsval where
  "sample_id = JStr (str ''0x'' @ replicate 64 (of_char CHR ''1''))"

definition sample_buyer :: jsval where
  "sample_buyer = JStr (str ''0xb0b'')"

definition sample_seller :: jsval where
  "sample_seller = JStr (str ''0x5e1'')"

definition sample_token :: jsval where
  "sample_token = JStr (str ''0x70c'')"

text \<open>A receipt with two logs, the second an \<open>EscrowCreated\<close> event of the sample chain.\<close>

definition sample_receipt :: receipt where
  "sample_receipt =
     \<lparr>transactionHash = str ''0x7a6'', gasUsed = 21000,
      logs = [\<lparr>log_address = str ''0x70c'', topics = [str ''0xddf'', str ''0xb0b''], log_data = []\<rparr>,
              \<lparr>log_address = str ''0xe5c0'',
               topics = [str ''0xe5c'', str ''0x1d'', str ''0xb0b'', str ''0x5e1''],
               log_data = []\<rparr>]\<rparr>"

text \<open>A create-escrow body whose \<open>amount\<close> is the number 0, and a fund-escrow body whose
  \<open>signature\<close> is the empty string.\<close>

definition zero_amount_request :: request where
  "zero_amount_request =
     \<lparr>path = str ''/relay/create-escrow'', x_api_key = None, ip = str ''10.0.0.1'',
      body = [str ''seller'' \<mapsto> sample_seller, str ''amount'' \<mapsto> JNum (Finite 0),
              str ''token'' \<mapsto> sample_token, str ''deliveryDeadline'' \<mapsto> JNum (Finite 1700000000),
              str ''buyer'' \<mapsto> sample_buyer, str ''signature'' \<mapsto> sample_signature]\<rparr>"

definition empty_signature_request :: request where
  "empty_signature_request =
     \<lparr>path = str ''/relay/fund-escrow'', x_api_key = None, ip = str ''10.0.0.1'',
      body = [str ''escrowId'' \<mapsto> sample_id, str ''buyer'' \<mapsto> sample_buyer,
              str ''signature'' \<mapsto> JStr []]\<rparr>"

text \<open>
  A request to \<open>/health\<close> without an API key, and the state of the rate limiter after
  \<open>n\<close> such requests from the same address have been served, starting from the empty
  limiter of a fresh process.
\<close>

definition health_request :: request where
  "health_request =
     \<lparr>path = str ''/health'', x_api_key = None, ip = str ''10.0.0.1'', body = Map.empty\<rparr>"

primrec limiter_after :: "nat \<Rightarrow> limiter" where
  "limiter_after 0 = Map.empty"
| "limiter_after (Suc n) =
     snd (snd (serve sample_world health_request health (limiter_after n)))"









section \<open>Laws of the computations\<close>

lemma catch_rethrow: "catch m (\<lambda>e. throw e) = m"
  by (cases m) (auto simp: catch_def throw_def split: sum.splits)

lemma catch_case:
  "catch (case x of Inl e \<Rightarrow> throw e | Inr i \<Rightarrow> ret i) h = (case x of Inl e \<Rightarrow> h e | Inr i \<Rightarrow> ret i)"
  by (auto simp: catch_def throw_def ret_def split: sum.splits prod.splits)

lemma bind_assoc: "bind (bind m f) g = bind m (\<lambda>x. bind (f x) g)"
  by (cases m) (auto simp: bind_def split: sum.splits prod.splits)

lemma bind_ret: "bind (ret x) f = f x"
  by (auto simp: bind_def ret_def split: prod.splits)

lemma bind_throw: "bind (throw e) f = throw e"
  by (auto simp: bind_def throw_def)

lemma bind_if: "bind (if b then x else y) f = (if b then bind x f else bind y f)"
  by simp

lemma wp_ret: "wp (ret x) Q = Q [] (Inr x)"
  by (simp add: wp_def ret_def)

lemma wp_throw: "wp (throw e) Q = Q [] (Inl e)"
  by (simp add: wp_def throw_def)

lemma wp_if: "wp (if b then x else y) Q = (if b then wp x Q else wp y Q)"
  by simp

lemma wp_bind_call:
  "wp (bind (call ev a) f) Q =
     ((\<forall>m. a = Inl m \<longrightarrow> Q [ev] (Inl (External m)))
      \<and> (\<forall>x. a = Inr x \<longrightarrow> wp (f x) (\<lambda>t. Q (ev # t))))"
  by (cases a) (auto simp: wp_def bind_def call_def split: prod.splits)

lemma wp_call:
  "wp (call ev a) Q =
     ((\<forall>m. a = Inl m \<longrightarrow> Q [ev] (Inl (External m))) \<and> (\<forall>x. a = Inr x \<longrightarrow> Q [ev] (Inr x)))"
  by (cases a) (auto simp: wp_def call_def)

lemma wp_bind_local:
  "wp (bind (local a) f) Q =
     ((\<forall>m. a = Inl m \<longrightarrow> Q [] (Inl (External m))) \<and> (\<forall>x. a = Inr x \<longrightarrow> wp (f x) Q))"
  by (cases a) (auto simp: wp_def bind_def local_def split: prod.splits)

lemma wp_bind_log_template:
  "wp (bind (log_template v) f) Q =
     (if throws_on_ToString v then Q [] (Inl TypeError) else wp (f ()) Q)"
  by (simp add: log_template_def bind_ret bind_throw wp_throw)

lemma wp_bind_bad_hex_format:
  "wp (bind (bad_hex_format v n) f) Q =
     (if (\<exists>s. v = JStr s) then wp (f (\<not> well_formed_hex v n)) Q else Q [] (Inl TypeError))"
  by (cases v) (auto simp: bad_hex_format_def well_formed_hex_def bind_ret bind_throw wp_throw)

lemma wp_bind_js_BigInt:
  "wp (bind (js_BigInt w v) f) Q =
     ((\<forall>e. snd (js_BigInt w v) = Inl e \<longrightarrow> Q [] (Inl e))
      \<and> (\<forall>i. snd (js_BigInt w v) = Inr i \<longrightarrow> wp (f i) Q))"
  by (cases v; cases "BigInt_of w v")
     (auto simp: js_BigInt_def bind_ret bind_throw wp_def local_def ret_def throw_def bind_def
        split: sum.splits prod.splits)

lemma wp_bind_adjustedGasPrice:
  "wp (bind (adjustedGasPrice w gp) f) Q =
     (case NumberToBigInt (multiplier_percent w) of
        Inl e \<Rightarrow> Q [] (Inl e)
      | Inr k \<Rightarrow> wp (f ((gp * k) sdiv 100)) Q)"
  by (simp add: adjustedGasPrice_def bind_ret bind_throw wp_throw split: sum.splits)

lemma methodMap_simps:
  "map_of methodMap ''relayCreateEscrow'' = Some ''relayCreateEscrow''"
  "map_of methodMap ''relayFundEscrow'' = Some ''relayFundEscrow''"
  "map_of methodMap ''relayConfirmDelivery'' = Some ''relayConfirmDelivery''"
  "map_of methodMap ''relayStoreDocument'' = Some ''relayStoreDocument''"
  by (simp_all add: methodMap_def)

lemmas wp_rules = wp_ret wp_throw wp_if wp_bind_call wp_call wp_bind_local wp_bind_log_template
  wp_bind_bad_hex_format wp_bind_js_BigInt wp_bind_adjustedGasPrice
  bind_assoc bind_ret bind_throw bind_if catch_rethrow catch_case methodMap_simps
  option.case

lemmas op_defs = estimateGas_def executeTransaction_def
    getNonce_def getEscrowDetails_def getUserBalance_def getUserAllowance_def getRelayerBalance_def

lemma wpI: "wp m (\<lambda>t r. P (t, r)) \<Longrightarrow> P m"
  by (simp add: wp_def)

lemma relay_eq:
  "relay w (CreateEscrowRequest a b c d e f) =
     (fst (relayCreateEscrow w a b c d e f), map_sum id Created (snd (relayCreateEscrow w a b c d e f)))"
  "relay w (FundEscrowRequest i b s) =
     (fst (relayFundEscrow w i b s), map_sum id Relayed (snd (relayFundEscrow w i b s)))"
  "relay w (ConfirmDeliveryRequest i b s) =
     (fst (relayConfirmDelivery w i b s), map_sum id Relayed (snd (relayConfirmDelivery w i b s)))"
  "relay w (StoreDocumentRequest i dh se s) =
     (fst (relayStoreDocument w i dh se s), map_sum id Relayed (snd (relayStoreDocument w i dh se s)))"
  by (auto simp: bind_def ret_def split: prod.splits sum.splits)

section \<open>The gas price multiplier in double arithmetic\<close>

lemma bitlen_vals:
  "bitlen 11 = 4" "bitlen 10 = 4" "bitlen 61924494876344325 = 56" "bitlen 562949953421312 = 50"
  "bitlen 23 = 5" "bitlen 20 = 5" "bitlen 64739244643450875 = 56"
  "bitlen 3 = 2" "bitlen 2 = 2" "bitlen 150 = 8" "bitlen 1 = 1"
  by code_simp+

lemma quotient_of_vals:
  "quotient_of (11 / 10) = (11, 10)"
  "quotient_of (61924494876344325 / 562949953421312) = (61924494876344325, 562949953421312)"
  "quotient_of (23 / 20) = (23, 20)"
  "quotient_of (64739244643450875 / 562949953421312) = (64739244643450875, 562949953421312)"
  "quotient_of (3 / 2) = (3, 2)"
  "quotient_of 150 = (150, 1)"
  by code_simp+

lemma ilog2_vals:
  "ilog2 (11 / 10) = 0"
  "ilog2 (61924494876344325 / 562949953421312) = 6"
  "ilog2 (23 / 20) = 0"
  "ilog2 (64739244643450875 / 562949953421312) = 6"
  "ilog2 (3 / 2) = 0"
  "ilog2 150 = 7"
  unfolding ilog2_def quotient_of_vals by (simp_all add: bitlen_vals pow2_def)

lemma round_half_even_vals:
  "round_half_even (11 / 10 * 4503599627370496) = 4953959590107546"
  "round_half_even (61924494876344325 / 8) = 7740561859543041"
  "round_half_even (23 / 20 * 4503599627370496) = 5179139571476070"
  "round_half_even (64739244643450875 / 8) = 8092405580431359"
proof -
  have e: "(11 / 10 * 4503599627370496 :: rat) = 4953959590107546 - 2 / 5"
    "(61924494876344325 / 8 :: rat) = 7740561859543041 - 3 / 8"
    "(23 / 20 * 4503599627370496 :: rat) = 5179139571476070 + 2 / 5"
    "(64739244643450875 / 8 :: rat) = 8092405580431359 + 3 / 8"
    by simp_all
  have f: "\<lfloor>(4953959590107546 - 2 / 5 :: rat)\<rfloor> = 4953959590107545"
    "\<lfloor>(7740561859543041 - 3 / 8 :: rat)\<rfloor> = 7740561859543040"
    "\<lfloor>(5179139571476070 + 2 / 5 :: rat)\<rfloor> = 5179139571476070"
    "\<lfloor>(8092405580431359 + 3 / 8 :: rat)\<rfloor> = 8092405580431359"
    by (simp_all add: floor_eq_iff)
  show "round_half_even (11 / 10 * 4503599627370496) = 4953959590107546"
    unfolding e round_half_even_def f by (simp add: Let_def)
  show "round_half_even (61924494876344325 / 8) = 7740561859543041"
    unfolding e round_half_even_def f by (simp add: Let_def)
  show "round_half_even (23 / 20 * 4503599627370496) = 5179139571476070"
    unfolding e round_half_even_def f by (simp add: Let_def)
  show "round_half_even (64739244643450875 / 8) = 8092405580431359"
    unfolding e round_half_even_def f by (simp add: Let_def)
qed


text \<open>The literal \<open>1.1\<close> as a double.\<close>

lemma to_double_1_1: "to_double (11 / 10) = Finite (2476979795053773 / 2251799813685248)"
proof -
  have p: "pow2 (- 52) = 1 / 4503599627370496" by (simp add: pow2_def)
  show ?thesis
    unfolding to_double_def
    apply (simp add: ilog2_vals Let_def p)
    apply (simp add: round_half_even_vals[simplified] pow2_def)
    done
qed

text \<open>\<open>1.1 * 100\<close> is \<open>110.00000000000001\<close>.\<close>

lemma js_mul_1_1_100:
  "js_mul (to_double (11 / 10)) (Finite 100) = Finite (7740561859543041 / 70368744177664)"
proof -
  have p: "pow2 (- 46) = 1 / 70368744177664" by (simp add: pow2_def)
  have m: "(2476979795053773 / 2251799813685248 * 100 :: rat) = 61924494876344325 / 562949953421312"
    by simp
  show ?thesis
    unfolding to_double_1_1 js_mul.simps m
    unfolding to_double_def
    apply (simp add: ilog2_vals Let_def p)
    apply (simp add: round_half_even_vals[simplified] pow2_def)
    done
qed

lemma default_multiplier_percent:
  "GAS_PRICE_MULTIPLIER w = None \<or> GAS_PRICE_MULTIPLIER w = Some [] \<Longrightarrow>
     multiplier_percent w = Finite 110"
  unfolding multiplier_percent_def multiplier_def
  by (auto simp: env_or_def js_mul_1_1_100 floor_eq_iff)

lemma default_percent:
  "GAS_PRICE_MULTIPLIER w = None \<or> GAS_PRICE_MULTIPLIER w = Some [] \<Longrightarrow>
     NumberToBigInt (multiplier_percent w) = Inr 110"
  by (simp add: default_multiplier_percent)








section \<open>Running the sample chain\<close>

lemmas sample_simps = sample_world_def sample_signature_def sample_id_def sample_buyer_def
  sample_seller_def sample_token_def sample_details_def str_def

lemmas run_simps = relay_eq op_defs bind_def call_def local_def ret_def throw_def catch_def
  log_template_def bad_hex_format_def js_BigInt_def adjustedGasPrice_def methodMap_def

lemmas eval_simps = run_simps sample_simps default_percent parseEther_0_01_def
  signed_divide_int_def

section \<open>Nonce freshness and replay\<close>

lemma nonce_discipline_fund: "nonce_discipline w (FundEscrowRequest i b s) (relayFundEscrow w i b s)"
  apply (rule wpI)
  unfolding relayFundEscrow_def op_defs
  apply (simp add: wp_rules  split: sum.splits)
  apply (simp add: nonce_discipline_def submissions_def)
  done

lemma nonce_discipline_confirm: "nonce_discipline w (ConfirmDeliveryRequest i b s) (relayConfirmDelivery w i b s)"
  apply (rule wpI)
  unfolding relayConfirmDelivery_def op_defs
  apply (simp add: wp_rules  split: sum.splits)
  apply (simp add: nonce_discipline_def submissions_def)
  done

lemma nonce_discipline_store: "nonce_discipline w (StoreDocumentRequest i d b s) (relayStoreDocument w i d b s)"
  apply (rule wpI)
  unfolding relayStoreDocument_def op_defs
  apply (simp add: wp_rules  split: sum.splits)
  apply (simp add: nonce_discipline_def submissions_def)
  done

lemma nonce_discipline_create: "nonce_discipline w (CreateEscrowRequest a b c d e f) (relayCreateEscrow w a b c d e f)"
  apply (rule wpI)
  unfolding relayCreateEscrow_def op_defs
  apply (simp add: wp_rules  split: sum.splits)
  apply (simp add: nonce_discipline_def submissions_def)
  done

lemma nonce_discipline_map: "nonce_discipline w req (t, r) \<Longrightarrow> nonce_discipline w req (t, map_sum id g r)"
  unfolding nonce_discipline_def by (cases r) auto

lemma nonce_discipline_relay: "nonce_discipline w req (relay w req)"
proof (cases req)
  case (CreateEscrowRequest a b c d e f)
  show ?thesis unfolding CreateEscrowRequest relay_eq
    by (rule nonce_discipline_map) (simp add: nonce_discipline_create)
next
  case (FundEscrowRequest i b s)
  show ?thesis unfolding FundEscrowRequest relay_eq
    by (rule nonce_discipline_map) (simp add: nonce_discipline_fund)
next
  case (ConfirmDeliveryRequest i b s)
  show ?thesis unfolding ConfirmDeliveryRequest relay_eq
    by (rule nonce_discipline_map) (simp add: nonce_discipline_confirm)
next
  case (StoreDocumentRequest i d b s)
  show ?thesis unfolding StoreDocumentRequest relay_eq
    by (rule nonce_discipline_map) (simp add: nonce_discipline_store)
qed

text \<open>
  Claim C1. In each of the four relay operations the nonce of the rebuilt typed message
  is the one read from the chain in the same request: whenever a verification is
  attempted, the request's first two calls are the read of the actor's nonce and the
  verification, and the verified message carries the nonce that read returned.
  Consequently a signature produced over nonce \<open>N\<close>, which the signature library
  rejects for every message with another nonce, fails once the chain's nonce \<open>n\<close>
  differs from \<open>N\<close>: the request submits nothing and throws, and when it gets as far
  as verification its only calls are the nonce read and the verification and it throws
  \<open>Invalid signature\<close>.
\<close>

theorem nonce_read_fresh_and_replay_rejected:
  "(\<forall>a m s. VerifyTypedData a m s \<in> set (fst (relay w req)) \<longrightarrow>
       a = actor req \<and> s = signature_of req
       \<and> nonces w (actor req) = Inr (message_nonce m)
       \<and> take 2 (fst (relay w req)) = [ReadNonce (actor req), VerifyTypedData a m s])
   \<and> (nonces w (actor req) = Inr n \<and> n \<noteq> N
       \<and> (\<forall>m. message_nonce m \<noteq> N \<longrightarrow>
             verifyTypedData w (actor req) m (signature_of req) = Inr False)
       \<longrightarrow> submissions (fst (relay w req)) = 0 \<and> isl (snd (relay w req))
           \<and> (list_ex is_verify (fst (relay w req)) \<longrightarrow>
                (\<exists>m. message_nonce m = n
                   \<and> fst (relay w req) =
                       [ReadNonce (actor req), VerifyTypedData (actor req) m (signature_of req)])
                \<and> snd (relay w req) = Inl (Error ''Invalid signature'')))"
proof (intro conjI allI impI)
  fix a m s
  assume "VerifyTypedData a m s \<in> set (fst (relay w req))"
  with nonce_discipline_relay[of w req]
  show "a = actor req" "s = signature_of req" "nonces w (actor req) = Inr (message_nonce m)"
    "take 2 (fst (relay w req)) = [ReadNonce (actor req), VerifyTypedData a m s]"
    unfolding nonce_discipline_def by blast+
next
  assume h: "nonces w (actor req) = Inr n \<and> n \<noteq> N
       \<and> (\<forall>m. message_nonce m \<noteq> N \<longrightarrow>
             verifyTypedData w (actor req) m (signature_of req) = Inr False)"
  have rejected: "(\<exists>m. message_nonce m = n
                   \<and> fst (relay w req) =
                       [ReadNonce (actor req), VerifyTypedData (actor req) m (signature_of req)])
        \<and> snd (relay w req) = Inl (Error ''Invalid signature'')"
    if v: "list_ex is_verify (fst (relay w req))"
  proof -
    from v obtain ev where ev: "ev \<in> set (fst (relay w req))" "is_verify ev"
      by (auto simp: list_ex_iff)
    from ev(2) obtain a m s where e: "ev = VerifyTypedData a m s"
      by (cases ev) auto
    from ev(1) e nonce_discipline_relay[of w req]
    have f: "a = actor req" "s = signature_of req" "nonces w (actor req) = Inr (message_nonce m)"
      "verifyTypedData w a m s = Inr False \<longrightarrow>
              fst (relay w req) = [ReadNonce (actor req), VerifyTypedData a m s]
              \<and> snd (relay w req) = Inl (Error ''Invalid signature'')"
      unfolding nonce_discipline_def by blast+
    from f(3) h have "message_nonce m = n" by simp
    with h f show ?thesis by auto
  qed
  show "submissions (fst (relay w req)) = 0"
  proof (cases "list_ex is_verify (fst (relay w req))")
    case True
    from rejected[OF True] show ?thesis by (auto simp: submissions_def)
  next
    case False
    with nonce_discipline_relay[of w req] show ?thesis unfolding nonce_discipline_def by blast
  qed
  show "isl (snd (relay w req))"
  proof (cases "list_ex is_verify (fst (relay w req))")
    case True
    from rejected[OF True] show ?thesis by simp
  next
    case False
    with nonce_discipline_relay[of w req] show ?thesis unfolding nonce_discipline_def by blast
  qed
  show "\<exists>m. message_nonce m = n
                   \<and> fst (relay w req) =
                       [ReadNonce (actor req), VerifyTypedData (actor req) m (signature_of req)]"
       "snd (relay w req) = Inl (Error ''Invalid signature'')"
    if "list_ex is_verify (fst (relay w req))"
    using rejected[OF that] by simp_all
qed

text \<open>
  The chain's nonce has advanced to 8; the signature was produced over nonce 7. Each of
  the four operations reaches verification and throws \<open>Invalid signature\<close>.
\<close>

theorem nonce_read_fresh_and_replay_rejected_witness:
  "relay (sample_world\<lparr>nonces := (\<lambda>a. Inr 8)\<rparr>)
      (CreateEscrowRequest sample_seller (JNum (Finite 1000)) sample_token
         (JNum (Finite 1700000000)) sample_buyer sample_signature)
     = ([ReadNonce sample_buyer,
         VerifyTypedData sample_buyer
           (CreateEscrow (str ''0x5e1'') 1000 (str ''0x70c'') 1700000000 8) sample_signature],
        Inl (Error ''Invalid signature''))
   \<and> relay (sample_world\<lparr>nonces := (\<lambda>a. Inr 8)\<rparr>)
      (FundEscrowRequest sample_id sample_buyer sample_signature)
     = ([ReadNonce sample_buyer,
         VerifyTypedData sample_buyer (FundEscrow sample_id 8) sample_signature],
        Inl (Error ''Invalid signature''))
   \<and> relay (sample_world\<lparr>nonces := (\<lambda>a. Inr 8)\<rparr>)
      (ConfirmDeliveryRequest sample_id sample_buyer sample_signature)
     = ([ReadNonce sample_buyer,
         VerifyTypedData sample_buyer (ConfirmDelivery sample_id 8) sample_signature],
        Inl (Error ''Invalid signature''))
   \<and> relay (sample_world\<lparr>nonces := (\<lambda>a. Inr 8)\<rparr>)
      (StoreDocumentRequest sample_id sample_id sample_seller sample_signature)
     = ([ReadNonce sample_seller,
         VerifyTypedData sample_seller (StoreDocument sample_id sample_id 8) sample_signature],
        Inl (Error ''Invalid signature''))"
proof -
  let ?w = "sample_world\<lparr>nonces := (\<lambda>a. Inr 8)\<rparr>"
  have rejected: "relay ?w req
      = ([ReadNonce (actor req), VerifyTypedData (actor req) m (signature_of req)],
         Inl (Error ''Invalid signature''))"
    if v: "VerifyTypedData (actor req) m (signature_of req) \<in> set (fst (relay ?w req))"
    for req m
  proof -
    have h: "nonces ?w (actor req) = Inr 8 \<and> (8::int) \<noteq> 7
       \<and> (\<forall>m. message_nonce m \<noteq> 7 \<longrightarrow>
             verifyTypedData ?w (actor req) m (signature_of req) = Inr False)"
      by (simp add: sample_world_def)
    from v have l: "list_ex is_verify (fst (relay ?w req))"
      by (auto simp: list_ex_iff intro!: bexI[of _ "VerifyTypedData (actor req) m (signature_of req)"])
    from nonce_read_fresh_and_replay_rejected[of ?w req 8 7] h l
    obtain m' where m': "fst (relay ?w req)
          = [ReadNonce (actor req), VerifyTypedData (actor req) m' (signature_of req)]"
        "snd (relay ?w req) = Inl (Error ''Invalid signature'')"
      by blast
    from v m'(1) have "m' = m" by simp
    with m' show ?thesis by (metis prod.collapse)
  qed
  have c: "VerifyTypedData sample_buyer
             (CreateEscrow (str ''0x5e1'') 1000 (str ''0x70c'') 1700000000 8) sample_signature
      \<in> set (fst (relay ?w (CreateEscrowRequest sample_seller (JNum (Finite 1000)) sample_token
         (JNum (Finite 1700000000)) sample_buyer sample_signature)))"
    by (simp add: eval_simps relayCreateEscrow_def)
  have f: "VerifyTypedData sample_buyer (FundEscrow sample_id 8) sample_signature
      \<in> set (fst (relay ?w (FundEscrowRequest sample_id sample_buyer sample_signature)))"
    by (simp add: eval_simps relayFundEscrow_def)
  have d: "VerifyTypedData sample_buyer (ConfirmDelivery sample_id 8) sample_signature
      \<in> set (fst (relay ?w (ConfirmDeliveryRequest sample_id sample_buyer sample_signature)))"
    by (simp add: eval_simps relayConfirmDelivery_def)
  have s: "VerifyTypedData sample_seller (StoreDocument sample_id sample_id 8) sample_signature
      \<in> set (fst (relay ?w (StoreDocumentRequest sample_id sample_id sample_seller
                               sample_signature)))"
    by (simp add: eval_simps relayStoreDocument_def)
  from rejected[of "CreateEscrowRequest sample_seller (JNum (Finite 1000)) sample_token
         (JNum (Finite 1700000000)) sample_buyer sample_signature", simplified actor.simps
           signature_of.simps, OF c]
    rejected[of "FundEscrowRequest sample_id sample_buyer sample_signature",
      simplified actor.simps signature_of.simps, OF f]
    rejected[of "ConfirmDeliveryRequest sample_id sample_buyer sample_signature",
      simplified actor.simps signature_of.simps, OF d]
    rejected[of "StoreDocumentRequest sample_id sample_id sample_seller sample_signature",
      simplified actor.simps signature_of.simps, OF s]
  show ?thesis by (intro conjI)
qed

section \<open>Submissions\<close>

lemma submission_discipline_fund: "submission_discipline w (FundEscrowRequest i b s) (relayFundEscrow w i b s)"
  apply (rule wpI)
  unfolding relayFundEscrow_def op_defs
  apply (simp add: wp_rules  split: sum.splits)
  apply (simp add: submission_discipline_def submissions_def thrown_by_submission_def)
  done

lemma submission_discipline_confirm: "submission_discipline w (ConfirmDeliveryRequest i b s) (relayConfirmDelivery w i b s)"
  apply (rule wpI)
  unfolding relayConfirmDelivery_def op_defs
  apply (simp add: wp_rules  split: sum.splits)
  apply (simp add: submission_discipline_def submissions_def thrown_by_submission_def)
  done

lemma submission_discipline_store: "submission_discipline w (StoreDocumentRequest i d b s) (relayStoreDocument w i d b s)"
  apply (rule wpI)
  unfolding relayStoreDocument_def op_defs
  apply (simp add: wp_rules  split: sum.splits)
  apply (simp add: submission_discipline_def submissions_def thrown_by_submission_def)
  done

lemma submission_discipline_create: "submission_discipline w (CreateEscrowRequest a b c d e f) (relayCreateEscrow w a b c d e f)"
  apply (rule wpI)
  unfolding relayCreateEscrow_def op_defs
  apply (simp add: wp_rules  split: sum.splits)
  apply (simp add: submission_discipline_def submissions_def thrown_by_submission_def)
  done

lemma submission_discipline_map: "submission_discipline w req (t, r) \<Longrightarrow> submission_discipline w req (t, map_sum id g r)"
  unfolding submission_discipline_def by (cases r) auto

lemma submission_discipline_relay: "submission_discipline w req (relay w req)"
proof (cases req)
  case (CreateEscrowRequest a b c d e f)
  show ?thesis unfolding CreateEscrowRequest relay_eq
    by (rule submission_discipline_map) (simp add: submission_discipline_create)
next
  case (FundEscrowRequest i b s)
  show ?thesis unfolding FundEscrowRequest relay_eq
    by (rule submission_discipline_map) (simp add: submission_discipline_fund)
next
  case (ConfirmDeliveryRequest i b s)
  show ?thesis unfolding ConfirmDeliveryRequest relay_eq
    by (rule submission_discipline_map) (simp add: submission_discipline_confirm)
next
  case (StoreDocumentRequest i d b s)
  show ?thesis unfolding StoreDocumentRequest relay_eq
    by (rule submission_discipline_map) (simp add: submission_discipline_store)
qed

text \<open>
  Claim C2. Every relay request issues at most one on-chain write, in at most one run
  of \<open>executeTransaction\<close>; a request that succeeds issued exactly one. A write is issued
  only after the nonce read, the signature verification, the gas estimation and the
  simulation of the same request, each of them answered without an error (the
  verification with \<open>true\<close>), and after the relayer's own checks have passed; so if any
  of these steps throws, nothing is submitted. A request that did submit and still
  failed, failed with the error of that one write or of the wait for its receipt: the
  write is not repeated.
\<close>

theorem at_most_one_submission:
  "submissions (fst (relay w req)) \<le> 1
   \<and> length (filter (\<lambda>ev. ev = GetGasPrice) (fst (relay w req))) \<le> 1
   \<and> (\<not> isl (snd (relay w req)) \<longrightarrow> submissions (fst (relay w req)) = 1)
   \<and> (0 < submissions (fst (relay w req)) \<longrightarrow>
        list_all (answered w) (takeWhile (\<lambda>ev. \<not> is_write ev) (fst (relay w req)))
        \<and> ReadNonce (actor req) \<in> set (takeWhile (\<lambda>ev. \<not> is_write ev) (fst (relay w req)))
        \<and> list_ex is_verify (takeWhile (\<lambda>ev. \<not> is_write ev) (fst (relay w req)))
        \<and> list_ex is_estimate (takeWhile (\<lambda>ev. \<not> is_write ev) (fst (relay w req)))
        \<and> list_ex is_simulate (takeWhile (\<lambda>ev. \<not> is_write ev) (fst (relay w req)))
        \<and> checks_passed w req)
   \<and> (\<forall>e. snd (relay w req) = Inl e \<and> 0 < submissions (fst (relay w req)) \<longrightarrow>
          thrown_by_submission w (fst (relay w req)) e)"
  using submission_discipline_relay[of w req] unfolding submission_discipline_def .

text \<open>
  On the sample chain a create request submits once; when the receipt wait times out,
  the confirm request fails with the error of the wait, after its one submission.
\<close>

theorem at_most_one_submission_witness:
  "submissions (fst (relay sample_world
       (CreateEscrowRequest sample_seller (JNum (Finite 1000)) sample_token
          (JNum (Finite 1700000000)) sample_buyer sample_signature))) = 1
   \<and> checks_passed sample_world
       (CreateEscrowRequest sample_seller (JNum (Finite 1000)) sample_token
          (JNum (Finite 1700000000)) sample_buyer sample_signature)
   \<and> thrown_by_submission
        (sample_world\<lparr>waitForTransactionReceipt := (\<lambda>h. Inl (str ''timed out''))\<rparr>)
        (fst (relay (sample_world\<lparr>waitForTransactionReceipt := (\<lambda>h. Inl (str ''timed out''))\<rparr>)
           (ConfirmDeliveryRequest sample_id sample_buyer sample_signature)))
        (External (str ''timed out''))"
proof -
  let ?req = "CreateEscrowRequest sample_seller (JNum (Finite 1000)) sample_token
          (JNum (Finite 1700000000)) sample_buyer sample_signature"
  let ?w = "sample_world\<lparr>waitForTransactionReceipt := (\<lambda>h. Inl (str ''timed out''))\<rparr>"
  let ?req' = "ConfirmDeliveryRequest sample_id sample_buyer sample_signature"
  have s: "submissions (fst (relay sample_world ?req)) = 1"
    by (simp add: eval_simps relayCreateEscrow_def submissions_def)
  have s': "0 < submissions (fst (relay ?w ?req'))"
    by (simp add: eval_simps relayConfirmDelivery_def submissions_def)
  have e: "snd (relay ?w ?req') = Inl (External (str ''timed out''))"
    by (simp add: eval_simps relayConfirmDelivery_def)
  from at_most_one_submission[of sample_world ?req] s
  have "checks_passed sample_world ?req" by simp
  moreover from at_most_one_submission[of ?w ?req'] s' e
  have "thrown_by_submission ?w (fst (relay ?w ?req')) (External (str ''timed out''))" by blast
  ultimately show ?thesis using s by simp
qed

section \<open>Signature format\<close>

text \<open>
  \<open>relayCreateEscrow\<close> rejects a signature of the wrong shape before any call. The
  other three operations hand any signature, whatever its shape, to the signature
  library as soon as the nonce has been read.
\<close>

lemma create_rejects_malformed_signature:
  "\<not> well_formed_hex signature 132 \<Longrightarrow>
     fst (relayCreateEscrow w seller amount token deliveryDeadline buyer signature) = []
     \<and> isl (snd (relayCreateEscrow w seller amount token deliveryDeadline buyer signature))"
  apply (rule wpI[where m = "relayCreateEscrow w seller amount token deliveryDeadline buyer signature"
        and P = "\<lambda>r. \<not> well_formed_hex signature 132 \<longrightarrow> fst r = [] \<and> isl (snd r)", rule_format])
  unfolding relayCreateEscrow_def op_defs
  by (simp_all add: wp_rules split: sum.splits)

lemma fund_verifies_any_signature:
  "\<not> throws_on_ToString escrowId \<Longrightarrow> nonces w buyer = Inr n \<Longrightarrow>
     take 2 (fst (relayFundEscrow w escrowId buyer signature))
       = [ReadNonce buyer, VerifyTypedData buyer (FundEscrow escrowId n) signature]"
  apply (rule wpI[where m = "relayFundEscrow w escrowId buyer signature"
        and P = "\<lambda>r. \<not> throws_on_ToString escrowId \<longrightarrow> nonces w buyer = Inr n \<longrightarrow>
          take 2 (fst r) = [ReadNonce buyer, VerifyTypedData buyer (FundEscrow escrowId n) signature]",
        rule_format])
  unfolding relayFundEscrow_def op_defs
  by (simp_all add: wp_rules split: sum.splits)

lemma confirm_verifies_any_signature:
  "\<not> throws_on_ToString escrowId \<Longrightarrow> nonces w buyer = Inr n \<Longrightarrow>
     take 2 (fst (relayConfirmDelivery w escrowId buyer signature))
       = [ReadNonce buyer, VerifyTypedData buyer (ConfirmDelivery escrowId n) signature]"
  apply (rule wpI[where m = "relayConfirmDelivery w escrowId buyer signature"
        and P = "\<lambda>r. \<not> throws_on_ToString escrowId \<longrightarrow> nonces w buyer = Inr n \<longrightarrow>
          take 2 (fst r)
            = [ReadNonce buyer, VerifyTypedData buyer (ConfirmDelivery escrowId n) signature]",
        rule_format])
  unfolding relayConfirmDelivery_def op_defs
  by (simp_all add: wp_rules split: sum.splits)

lemma store_verifies_any_signature:
  "\<not> throws_on_ToString escrowId \<Longrightarrow> well_formed_hex documentHash 66 \<Longrightarrow>
   nonces w seller = Inr n \<Longrightarrow>
     take 2 (fst (relayStoreDocument w escrowId documentHash seller signature))
       = [ReadNonce seller, VerifyTypedData seller (StoreDocument escrowId documentHash n) signature]"
  apply (rule wpI[where m = "relayStoreDocument w escrowId documentHash seller signature"
        and P = "\<lambda>r. \<not> throws_on_ToString escrowId \<longrightarrow> well_formed_hex documentHash 66 \<longrightarrow>
          nonces w seller = Inr n \<longrightarrow>
          take 2 (fst r)
            = [ReadNonce seller,
               VerifyTypedData seller (StoreDocument escrowId documentHash n) signature]",
        rule_format])
  unfolding relayStoreDocument_def op_defs
  by (auto simp add: wp_rules well_formed_hex_def split: sum.splits jsval.splits)

text \<open>
  Claim C3. The claim is that all four variants validate the shape of the signature
  (\<open>0x\<close> and 130 more characters) and fail before any recovery on a malformed one. Only
  \<open>relayCreateEscrow\<close> has this check. With the malformed signature \<open>0x1234\<close> it
  throws \<open>Invalid signature format\<close> without a single call, whereas
  \<open>relayFundEscrow\<close>, \<open>relayConfirmDelivery\<close> and \<open>relayStoreDocument\<close> read the
  nonce from the chain and hand the same signature to the signature library.
\<close>

theorem malformed_signature_reaches_recovery:
  "\<not> well_formed_hex (JStr (str ''0x1234'')) 132
   \<and> relayCreateEscrow sample_world sample_seller (JNum (Finite 1000)) sample_token
        (JNum (Finite 1700000000)) sample_buyer (JStr (str ''0x1234''))
       = ([], Inl (Error ''Invalid signature format''))
   \<and> relayFundEscrow (sample_world\<lparr>verifyTypedData := (\<lambda>a m s. Inr False)\<rparr>)
        sample_id sample_buyer (JStr (str ''0x1234''))
       = ([ReadNonce sample_buyer,
           VerifyTypedData sample_buyer (FundEscrow sample_id 7) (JStr (str ''0x1234''))],
          Inl (Error ''Invalid signature''))
   \<and> relayConfirmDelivery (sample_world\<lparr>verifyTypedData := (\<lambda>a m s. Inr False)\<rparr>)
        sample_id sample_buyer (JStr (str ''0x1234''))
       = ([ReadNonce sample_buyer,
           VerifyTypedData sample_buyer (ConfirmDelivery sample_id 7) (JStr (str ''0x1234''))],
          Inl (Error ''Invalid signature''))
   \<and> relayStoreDocument (sample_world\<lparr>verifyTypedData := (\<lambda>a m s. Inr False)\<rparr>)
        sample_id sample_id sample_seller (JStr (str ''0x1234''))
       = ([ReadNonce sample_seller,
           VerifyTypedData sample_seller (StoreDocument sample_id sample_id 7)
             (JStr (str ''0x1234''))],
          Inl (Error ''Invalid signature''))"
  by (simp add: eval_simps well_formed_hex_def relayCreateEscrow_def relayFundEscrow_def
      relayConfirmDelivery_def relayStoreDocument_def)

section \<open>Preflight checks\<close>

text \<open>
  Claim C4 as stated fails: a buyer whose balance and allowance are both 50, for an
  escrow of 1000, passes verification and has an allowance below the amount, yet the
  operation fails with the balance error, not the allowance error.
\<close>

theorem fund_escrow_both_short_counterexample:
  "verifyTypedData (sample_world\<lparr>balanceOf := (\<lambda>a. Inr 50), allowance := (\<lambda>a. Inr 50)\<rparr>)
       sample_buyer (FundEscrow sample_id 7) sample_signature = Inr True
   \<and> allowance (sample_world\<lparr>balanceOf := (\<lambda>a. Inr 50), allowance := (\<lambda>a. Inr 50)\<rparr>)
       sample_buyer = Inr 50
   \<and> escrowDetails (sample_world\<lparr>balanceOf := (\<lambda>a. Inr 50), allowance := (\<lambda>a. Inr 50)\<rparr>)
       sample_id = Inr sample_details
   \<and> (50::int) < ed_amount sample_details
   \<and> relayFundEscrow (sample_world\<lparr>balanceOf := (\<lambda>a. Inr 50), allowance := (\<lambda>a. Inr 50)\<rparr>)
        sample_id sample_buyer sample_signature
       = ([ReadNonce sample_buyer,
           VerifyTypedData sample_buyer (FundEscrow sample_id 7) sample_signature,
           ReadEscrowDetails sample_id, ReadBalanceOf sample_buyer, ReadAllowance sample_buyer],
          Inl (Error ''Insufficient USDC balance''))
   \<and> Error ''Insufficient USDC balance'' \<noteq> Error ''Insufficient USDC allowance''"
  by (simp add: eval_simps relayFundEscrow_def)

lemma fund_preflight:
  "VerifyTypedData buyer m signature \<in> set (fst (relayFundEscrow w escrowId buyer signature)) \<longrightarrow>
   verifyTypedData w buyer m signature = Inr True \<longrightarrow>
   \<not> throws_on_ToString buyer \<longrightarrow>
   escrowDetails w escrowId = Inr d \<longrightarrow> balanceOf w buyer = Inr b \<longrightarrow> allowance w buyer = Inr a \<longrightarrow>
     (b < ed_amount d \<longrightarrow>
        relayFundEscrow w escrowId buyer signature =
          ([ReadNonce buyer, VerifyTypedData buyer m signature, ReadEscrowDetails escrowId,
            ReadBalanceOf buyer, ReadAllowance buyer],
           Inl (Error ''Insufficient USDC balance'')))
     \<and> (ed_amount d \<le> b \<and> a < ed_amount d \<longrightarrow>
        relayFundEscrow w escrowId buyer signature =
          ([ReadNonce buyer, VerifyTypedData buyer m signature, ReadEscrowDetails escrowId,
            ReadBalanceOf buyer, ReadAllowance buyer],
           Inl (Error ''Insufficient USDC allowance'')))"
  apply (rule wpI[where m = "relayFundEscrow w escrowId buyer signature"
        and P = "\<lambda>r. VerifyTypedData buyer m signature \<in> set (fst r) \<longrightarrow>
   verifyTypedData w buyer m signature = Inr True \<longrightarrow>
   \<not> throws_on_ToString buyer \<longrightarrow>
   escrowDetails w escrowId = Inr d \<longrightarrow> balanceOf w buyer = Inr b \<longrightarrow> allowance w buyer = Inr a \<longrightarrow>
     (b < ed_amount d \<longrightarrow>
        r =
          ([ReadNonce buyer, VerifyTypedData buyer m signature, ReadEscrowDetails escrowId,
            ReadBalanceOf buyer, ReadAllowance buyer],
           Inl (Error ''Insufficient USDC balance'')))
     \<and> (ed_amount d \<le> b \<and> a < ed_amount d \<longrightarrow>
        r =
          ([ReadNonce buyer, VerifyTypedData buyer m signature, ReadEscrowDetails escrowId,
            ReadBalanceOf buyer, ReadAllowance buyer],
           Inl (Error ''Insufficient USDC allowance'')))"])
  unfolding relayFundEscrow_def op_defs
  apply (simp add: wp_rules split: sum.splits)
  apply auto
  done

text \<open>
  Claim C4, amended. For a fund-escrow request that passes signature verification, with
  a buyer that the log line can print, and when the reads of the escrow, the balance and
  the allowance all succeed: a balance below the escrow amount gives
  \<open>Insufficient USDC balance\<close>; a sufficient balance with an allowance below the amount
  gives \<open>Insufficient USDC allowance\<close>; in both cases the calls of the request end with
  the three reads, so no gas estimation and no submission is issued.
\<close>

theorem fund_escrow_preflight_short_circuits:
  assumes "VerifyTypedData buyer m signature \<in> set (fst (relayFundEscrow w escrowId buyer signature))"
    and "verifyTypedData w buyer m signature = Inr True"
    and "\<not> throws_on_ToString buyer"
    and "escrowDetails w escrowId = Inr d"
    and "balanceOf w buyer = Inr b"
    and "allowance w buyer = Inr a"
  shows "(b < ed_amount d \<longrightarrow>
            snd (relayFundEscrow w escrowId buyer signature) = Inl (Error ''Insufficient USDC balance''))
       \<and> (ed_amount d \<le> b \<and> a < ed_amount d \<longrightarrow>
            snd (relayFundEscrow w escrowId buyer signature) = Inl (Error ''Insufficient USDC allowance''))
       \<and> (b < ed_amount d \<or> a < ed_amount d \<longrightarrow>
            fst (relayFundEscrow w escrowId buyer signature) =
              [ReadNonce buyer, VerifyTypedData buyer m signature, ReadEscrowDetails escrowId,
               ReadBalanceOf buyer, ReadAllowance buyer]
            \<and> \<not> list_ex is_estimate (fst (relayFundEscrow w escrowId buyer signature))
            \<and> submissions (fst (relayFundEscrow w escrowId buyer signature)) = 0)"
proof -
  note p = fund_preflight[of buyer m signature w escrowId d b a, rule_format, OF assms]
  show ?thesis
  proof (cases "b < ed_amount d")
    case True
    with p show ?thesis by (simp add: submissions_def)
  next
    case False
    with p show ?thesis by (auto simp: submissions_def)
  qed
qed

text \<open>
  On the sample chain, with an allowance of 50 and with a balance of 50.
\<close>

theorem fund_escrow_preflight_short_circuits_witness:
  "snd (relayFundEscrow (sample_world\<lparr>allowance := (\<lambda>a. Inr 50)\<rparr>)
          sample_id sample_buyer sample_signature) = Inl (Error ''Insufficient USDC allowance'')
   \<and> snd (relayFundEscrow (sample_world\<lparr>balanceOf := (\<lambda>a. Inr 50)\<rparr>)
          sample_id sample_buyer sample_signature) = Inl (Error ''Insufficient USDC balance'')
   \<and> \<not> list_ex is_estimate (fst (relayFundEscrow (sample_world\<lparr>balanceOf := (\<lambda>a. Inr 50)\<rparr>)
          sample_id sample_buyer sample_signature))"
proof -
  let ?w = "sample_world\<lparr>allowance := (\<lambda>a. Inr 50)\<rparr>"
  let ?w' = "sample_world\<lparr>balanceOf := (\<lambda>a. Inr 50)\<rparr>"
  let ?m = "FundEscrow sample_id 7"
  have v: "VerifyTypedData sample_buyer ?m sample_signature
             \<in> set (fst (relayFundEscrow ?w sample_id sample_buyer sample_signature))"
    by (simp add: eval_simps relayFundEscrow_def)
  have v': "VerifyTypedData sample_buyer ?m sample_signature
             \<in> set (fst (relayFundEscrow ?w' sample_id sample_buyer sample_signature))"
    by (simp add: eval_simps relayFundEscrow_def)
  have h: "verifyTypedData ?w sample_buyer ?m sample_signature = Inr True"
    "\<not> throws_on_ToString sample_buyer"
    "escrowDetails ?w sample_id = Inr sample_details"
    "balanceOf ?w sample_buyer = Inr 5000"
    "allowance ?w sample_buyer = Inr 50"
    by (simp_all add: sample_world_def sample_buyer_def)
  have h': "verifyTypedData ?w' sample_buyer ?m sample_signature = Inr True"
    "escrowDetails ?w' sample_id = Inr sample_details"
    "balanceOf ?w' sample_buyer = Inr 50"
    "allowance ?w' sample_buyer = Inr 5000"
    by (simp_all add: sample_world_def)
  have a: "ed_amount sample_details = 1000" by (simp add: sample_details_def)
  from fund_escrow_preflight_short_circuits[OF v h] a
    fund_escrow_preflight_short_circuits[OF v' h'(1) h(2) h'(2-4)]
  show ?thesis by simp
qed

lemma create_underfunded:
  "VerifyTypedData buyer m signature
      \<in> set (fst (relayCreateEscrow w seller amount token deliveryDeadline buyer signature)) \<longrightarrow>
   verifyTypedData w buyer m signature = Inr True \<longrightarrow>
   getBalance w = Inr b \<longrightarrow> b < parseEther_0_01 \<longrightarrow>
     relayCreateEscrow w seller amount token deliveryDeadline buyer signature =
       ([ReadNonce buyer, VerifyTypedData buyer m signature, GetBalance],
        Inl (Error ''Relayer balance too low''))"
  apply (rule wpI[where m = "relayCreateEscrow w seller amount token deliveryDeadline buyer signature"
        and P = "\<lambda>r. VerifyTypedData buyer m signature \<in> set (fst r) \<longrightarrow>
   verifyTypedData w buyer m signature = Inr True \<longrightarrow>
   getBalance w = Inr b \<longrightarrow> b < parseEther_0_01 \<longrightarrow>
     r = ([ReadNonce buyer, VerifyTypedData buyer m signature, GetBalance],
        Inl (Error ''Relayer balance too low''))"])
  unfolding relayCreateEscrow_def op_defs
  by (simp add: wp_rules split: sum.splits)

text \<open>
  Claim C5. For a create-escrow request that passes signature verification, if the
  relayer's native balance is below 0.01 ether (\<open>10 ^ 16\<close> wei) the operation throws
  \<open>Relayer balance too low\<close>; its calls are the nonce read, the verification and the
  balance read, so no gas estimation is issued.
\<close>

theorem create_escrow_relayer_underfunded:
  assumes "VerifyTypedData buyer m signature
      \<in> set (fst (relayCreateEscrow w seller amount token deliveryDeadline buyer signature))"
    and "verifyTypedData w buyer m signature = Inr True"
    and "getBalance w = Inr b"
    and "b < 10 ^ 16"
  shows "snd (relayCreateEscrow w seller amount token deliveryDeadline buyer signature)
           = Inl (Error ''Relayer balance too low'')
       \<and> fst (relayCreateEscrow w seller amount token deliveryDeadline buyer signature)
           = [ReadNonce buyer, VerifyTypedData buyer m signature, GetBalance]
       \<and> \<not> list_ex is_estimate
             (fst (relayCreateEscrow w seller amount token deliveryDeadline buyer signature))"
proof -
  from assms(4) have "b < parseEther_0_01" by (simp add: parseEther_0_01_def)
  with create_underfunded[of buyer m signature w seller amount token deliveryDeadline b] assms(1-3)
  show ?thesis by simp
qed

text \<open>
  The relayer holds one wei less than the floor.
\<close>

theorem create_escrow_relayer_underfunded_witness:
  "relayCreateEscrow (sample_world\<lparr>getBalance := Inr 9999999999999999\<rparr>)
      sample_seller (JNum (Finite 1000)) sample_token (JNum (Finite 1700000000))
      sample_buyer sample_signature
    = ([ReadNonce sample_buyer,
        VerifyTypedData sample_buyer
          (CreateEscrow (str ''0x5e1'') 1000 (str ''0x70c'') 1700000000 7) sample_signature,
        GetBalance],
       Inl (Error ''Relayer balance too low''))"
proof -
  let ?w = "sample_world\<lparr>getBalance := Inr 9999999999999999\<rparr>"
  let ?m = "CreateEscrow (str ''0x5e1'') 1000 (str ''0x70c'') 1700000000 7"
  have v: "VerifyTypedData sample_buyer ?m sample_signature
      \<in> set (fst (relayCreateEscrow ?w sample_seller (JNum (Finite 1000)) sample_token
            (JNum (Finite 1700000000)) sample_buyer sample_signature))"
    by (simp add: eval_simps relayCreateEscrow_def)
  have h: "verifyTypedData ?w sample_buyer ?m sample_signature = Inr True"
    "getBalance ?w = Inr 9999999999999999" "(9999999999999999::int) < 10 ^ 16"
    by (simp_all add: sample_world_def)
  from create_escrow_relayer_underfunded[OF v h] show ?thesis
    by (metis prod.collapse)
qed

section \<open>The escrow id of a created escrow\<close>

lemma extractEscrowIdFromLogs_find:
  "extractEscrowIdFromLogs sig ls =
     (case find (\<lambda>l. topics l \<noteq> [] \<and> hd (topics l) = sig) ls of
        None \<Rightarrow> Inl (Error ''EscrowCreated event not found in transaction logs'')
      | Some l \<Rightarrow> Inr (js_index (topics l) 1))"
  by (induction ls) auto

lemma create_confirmed:
  "WaitForTransactionReceipt h
      \<in> set (fst (relayCreateEscrow w seller amount token deliveryDeadline buyer signature)) \<longrightarrow>
   waitForTransactionReceipt w h = Inr r \<longrightarrow>
     snd (relayCreateEscrow w seller amount token deliveryDeadline buyer signature) =
       Inr \<lparr>ce_success = True,
            ce_escrowId =
              (case extractEscrowIdFromLogs (eventSig w) (logs r) of
                 Inl e \<Rightarrow> Some (transactionHash r) | Inr i \<Rightarrow> i),
            ce_transactionHash = transactionHash r,
            ce_gasUsed = BigInt_toString (gasUsed r)\<rparr>"
  apply (rule wpI[where m = "relayCreateEscrow w seller amount token deliveryDeadline buyer signature"
        and P = "\<lambda>x. WaitForTransactionReceipt h \<in> set (fst x) \<longrightarrow>
   waitForTransactionReceipt w h = Inr r \<longrightarrow>
     snd x =
       Inr \<lparr>ce_success = True,
            ce_escrowId =
              (case extractEscrowIdFromLogs (eventSig w) (logs r) of
                 Inl e \<Rightarrow> Some (transactionHash r) | Inr i \<Rightarrow> i),
            ce_transactionHash = transactionHash r,
            ce_gasUsed = BigInt_toString (gasUsed r)\<rparr>"])
  unfolding relayCreateEscrow_def op_defs
  apply (simp add: wp_rules split: sum.splits)
  apply (auto simp: ret_def)
  done

text \<open>
  Claim C7. When the transaction of a create-escrow request confirms with receipt
  \<open>r\<close>, the operation returns \<open>success: true\<close>. If no log of \<open>r\<close> has the
  \<open>EscrowCreated\<close> signature as its first topic, so that the extraction throws, the
  escrow id is the transaction hash; otherwise it is the second topic (\<open>topics[1]\<close>, the
  first indexed parameter) of the first such log.
\<close>

theorem escrow_id_from_event_or_transaction_hash:
  assumes "WaitForTransactionReceipt h
      \<in> set (fst (relayCreateEscrow w seller amount token deliveryDeadline buyer signature))"
    and "waitForTransactionReceipt w h = Inr r"
  shows "snd (relayCreateEscrow w seller amount token deliveryDeadline buyer signature) =
       Inr \<lparr>ce_success = True,
            ce_escrowId =
              (case find (\<lambda>l. topics l \<noteq> [] \<and> hd (topics l) = eventSig w) (logs r) of
                 None \<Rightarrow> Some (transactionHash r)
               | Some l \<Rightarrow> js_index (topics l) 1),
            ce_transactionHash = transactionHash r,
            ce_gasUsed = BigInt_toString (gasUsed r)\<rparr>"
  using create_confirmed[of h w seller amount token deliveryDeadline buyer signature r] assms
  by (simp add: extractEscrowIdFromLogs_find split: option.splits)

text \<open>
  A receipt whose second log is the event, and a receipt without logs.
\<close>

theorem escrow_id_from_event_or_transaction_hash_witness:
  "snd (relayCreateEscrow (sample_world\<lparr>waitForTransactionReceipt := (\<lambda>h. Inr sample_receipt)\<rparr>)
          sample_seller (JNum (Finite 1000)) sample_token (JNum (Finite 1700000000))
          sample_buyer sample_signature)
     = Inr \<lparr>ce_success = True, ce_escrowId = Some (str ''0x1d''),
            ce_transactionHash = str ''0x7a6'', ce_gasUsed = BigInt_toString 21000\<rparr>
   \<and> snd (relayCreateEscrow sample_world
          sample_seller (JNum (Finite 1000)) sample_token (JNum (Finite 1700000000))
          sample_buyer sample_signature)
     = Inr \<lparr>ce_success = True, ce_escrowId = Some (str ''0x7a6''),
            ce_transactionHash = str ''0x7a6'', ce_gasUsed = BigInt_toString 21000\<rparr>"
proof -
  let ?w = "sample_world\<lparr>waitForTransactionReceipt := (\<lambda>h. Inr sample_receipt)\<rparr>"
  have v: "WaitForTransactionReceipt (str ''0x7a6'')
      \<in> set (fst (relayCreateEscrow ?w sample_seller (JNum (Finite 1000)) sample_token
                     (JNum (Finite 1700000000)) sample_buyer sample_signature))"
    by (simp add: eval_simps relayCreateEscrow_def sample_receipt_def js_index_def)
  have v': "WaitForTransactionReceipt (str ''0x7a6'')
      \<in> set (fst (relayCreateEscrow sample_world sample_seller (JNum (Finite 1000)) sample_token
                     (JNum (Finite 1700000000)) sample_buyer sample_signature))"
    by (simp add: eval_simps relayCreateEscrow_def)
  have h: "waitForTransactionReceipt ?w (str ''0x7a6'') = Inr sample_receipt"
    by (simp add: sample_world_def)
  have h': "waitForTransactionReceipt sample_world (str ''0x7a6'')
              = Inr \<lparr>transactionHash = str ''0x7a6'', gasUsed = 21000, logs = []\<rparr>"
    by (simp add: sample_world_def)
  have e: "(case find (\<lambda>l. topics l \<noteq> [] \<and> hd (topics l) = eventSig ?w) (logs sample_receipt) of
               None \<Rightarrow> Some (transactionHash sample_receipt)
             | Some l \<Rightarrow> js_index (topics l) 1) = Some (str ''0x1d'')"
    "transactionHash sample_receipt = str ''0x7a6''" "gasUsed sample_receipt = 21000"
    by (simp_all add: sample_receipt_def sample_world_def js_index_def str_def)
  have e': "(case find (\<lambda>l. topics l \<noteq> [] \<and> hd (topics l) = eventSig sample_world)
                   (logs \<lparr>transactionHash = str ''0x7a6'', gasUsed = 21000, logs = []\<rparr>) of
               None \<Rightarrow> Some (transactionHash \<lparr>transactionHash = str ''0x7a6'', gasUsed = 21000, logs = []\<rparr>)
             | Some l \<Rightarrow> js_index (topics l) 1) = Some (str ''0x7a6'')"
    "transactionHash \<lparr>transactionHash = str ''0x7a6'', gasUsed = 21000, logs = []\<rparr> = str ''0x7a6''"
    "gasUsed \<lparr>transactionHash = str ''0x7a6'', gasUsed = 21000, logs = []\<rparr> = 21000"
    by simp_all
  show ?thesis
    using escrow_id_from_event_or_transaction_hash[OF v h]
      escrow_id_from_event_or_transaction_hash[OF v' h']
    unfolding e(1) e'(1) unfolding e(2,3) e'(2,3) by (rule conjI)
qed

section \<open>Structural checks of confirm-delivery and store-document\<close>

text \<open>
  \<open>relayStoreDocument\<close> checks the shape of the document hash (a string of length 66
  that starts with \<open>0x\<close>) before any call. Neither \<open>relayStoreDocument\<close> nor
  \<open>relayConfirmDelivery\<close> ever reads a balance, an allowance or the escrow's status.
\<close>

lemma store_no_preflight:
  "\<not> list_ex is_preflight_read (fst (relayStoreDocument w escrowId documentHash seller signature))
   \<and> (\<not> well_formed_hex documentHash 66 \<longrightarrow>
        fst (relayStoreDocument w escrowId documentHash seller signature) = []
        \<and> isl (snd (relayStoreDocument w escrowId documentHash seller signature))
        \<and> (\<not> throws_on_ToString escrowId \<and> (\<exists>h. documentHash = JStr h) \<longrightarrow>
             snd (relayStoreDocument w escrowId documentHash seller signature)
               = Inl (Error ''Invalid document hash format'')))"
  apply (rule wpI[where m = "relayStoreDocument w escrowId documentHash seller signature"
        and P = "\<lambda>r. \<not> list_ex is_preflight_read (fst r)
   \<and> (\<not> well_formed_hex documentHash 66 \<longrightarrow>
        fst r = [] \<and> isl (snd r)
        \<and> (\<not> throws_on_ToString escrowId \<and> (\<exists>h. documentHash = JStr h) \<longrightarrow>
             snd r = Inl (Error ''Invalid document hash format'')))"])
  unfolding relayStoreDocument_def op_defs
  by (simp add: wp_rules split: sum.splits)

lemma confirm_no_preflight:
  "\<not> list_ex is_preflight_read (fst (relayConfirmDelivery w escrowId buyer signature))"
  apply (rule wpI[where m = "relayConfirmDelivery w escrowId buyer signature"
        and P = "\<lambda>r. \<not> list_ex is_preflight_read (fst r)"])
  unfolding relayConfirmDelivery_def op_defs
  by (simp add: wp_rules split: sum.splits)

text \<open>
  Neither operation looks at the escrow id. Whatever it is, the nonce is read and the id
  is handed to the signature library inside the message; when the library accepts, the
  id goes on to gas estimation as it came.
\<close>

lemma confirm_estimates_any_escrow_id:
  "\<not> throws_on_ToString escrowId \<Longrightarrow> \<not> throws_on_ToString buyer \<Longrightarrow>
   nonces w buyer = Inr n \<Longrightarrow>
   verifyTypedData w buyer (ConfirmDelivery escrowId n) signature = Inr True \<Longrightarrow>
     take 3 (fst (relayConfirmDelivery w escrowId buyer signature))
       = [ReadNonce buyer, VerifyTypedData buyer (ConfirmDelivery escrowId n) signature,
          EstimateContractGas ''relayConfirmDelivery'' [escrowId, buyer, signature]]"
  apply (rule wpI[where m = "relayConfirmDelivery w escrowId buyer signature"
        and P = "\<lambda>r. \<not> throws_on_ToString escrowId \<longrightarrow> \<not> throws_on_ToString buyer \<longrightarrow>
          nonces w buyer = Inr n \<longrightarrow>
          verifyTypedData w buyer (ConfirmDelivery escrowId n) signature = Inr True \<longrightarrow>
          take 3 (fst r)
            = [ReadNonce buyer, VerifyTypedData buyer (ConfirmDelivery escrowId n) signature,
               EstimateContractGas ''relayConfirmDelivery'' [escrowId, buyer, signature]]",
        rule_format])
  unfolding relayConfirmDelivery_def op_defs
  by (simp_all add: wp_rules split: sum.splits)

lemma store_estimates_any_escrow_id:
  "\<not> throws_on_ToString escrowId \<Longrightarrow> \<not> throws_on_ToString seller \<Longrightarrow>
   well_formed_hex documentHash 66 \<Longrightarrow> nonces w seller = Inr n \<Longrightarrow>
   verifyTypedData w seller (StoreDocument escrowId documentHash n) signature = Inr True \<Longrightarrow>
     take 3 (fst (relayStoreDocument w escrowId documentHash seller signature))
       = [ReadNonce seller,
          VerifyTypedData seller (StoreDocument escrowId documentHash n) signature,
          EstimateContractGas ''relayStoreDocument'' [escrowId, documentHash, seller, signature]]"
  apply (rule wpI[where m = "relayStoreDocument w escrowId documentHash seller signature"
        and P = "\<lambda>r. \<not> throws_on_ToString escrowId \<longrightarrow> \<not> throws_on_ToString seller \<longrightarrow>
          well_formed_hex documentHash 66 \<longrightarrow> nonces w seller = Inr n \<longrightarrow>
          verifyTypedData w seller (StoreDocument escrowId documentHash n) signature = Inr True \<longrightarrow>
          take 3 (fst r)
            = [ReadNonce seller,
               VerifyTypedData seller (StoreDocument escrowId documentHash n) signature,
               EstimateContractGas ''relayStoreDocument''
                 [escrowId, documentHash, seller, signature]]",
        rule_format])
  unfolding relayStoreDocument_def op_defs
  by (auto simp add: wp_rules well_formed_hex_def split: sum.splits jsval.splits)


section \<open>The adjusted gas price\<close>

lemma NumberToBigInt_Inr: "NumberToBigInt n = Inr k \<Longrightarrow> n = Finite (of_int k)"
  by (cases n) (auto split: if_splits)






section \<open>Missing required fields\<close>

lemma field_without_field: "field (without_field req k) k = JUndefined"
  by (simp add: field_def without_field_def)

lemma missing_create:
  "(\<exists>k \<in> set create_escrow_fields. falsy (field req k)) \<Longrightarrow>
     post_create_escrow w req st = respond 400 (ErrorBody ''Missing required fields'') st"
  by (auto simp: post_create_escrow_def create_escrow_fields_def Let_def)

lemma missing_fund:
  "(\<exists>k \<in> set fund_escrow_fields. falsy (field req k)) \<Longrightarrow>
     post_fund_escrow w req st = respond 400 (ErrorBody ''Missing required fields'') st"
  by (auto simp: post_fund_escrow_def fund_escrow_fields_def Let_def)

lemma missing_confirm:
  "(\<exists>k \<in> set confirm_delivery_fields. falsy (field req k)) \<Longrightarrow>
     post_confirm_delivery w req st = respond 400 (ErrorBody ''Missing required fields'') st"
  by (auto simp: post_confirm_delivery_def confirm_delivery_fields_def Let_def)

lemma missing_store:
  "(\<exists>k \<in> set store_document_fields. falsy (field req k)) \<Longrightarrow>
     post_store_document w req st = respond 400 (ErrorBody ''Missing required fields'') st"
  by (auto simp: post_store_document_def store_document_fields_def Let_def)

text \<open>
  Claim C10. Each of the four relay routes answers 400 \<open>Missing required fields\<close>,
  without calling its service method, as soon as one of its required fields is falsy: absent,
  \<open>null\<close>, \<open>false\<close>, the number 0 or the empty string. The answer is the same as for
  the body with that field left out.
\<close>

theorem missing_fields_are_falsy_fields:
  "((\<exists>k \<in> set create_escrow_fields. falsy (field req k)) \<longrightarrow>
       post_create_escrow w req st
         = (\<lparr>status = 400, json = ErrorBody ''Missing required fields''\<rparr>, [], st)
       \<and> (\<forall>k \<in> set create_escrow_fields. falsy (field req k) \<longrightarrow>
            post_create_escrow w (without_field req k) st = post_create_escrow w req st))
   \<and> ((\<exists>k \<in> set fund_escrow_fields. falsy (field req k)) \<longrightarrow>
       post_fund_escrow w req st
         = (\<lparr>status = 400, json = ErrorBody ''Missing required fields''\<rparr>, [], st)
       \<and> (\<forall>k \<in> set fund_escrow_fields. falsy (field req k) \<longrightarrow>
            post_fund_escrow w (without_field req k) st = post_fund_escrow w req st))
   \<and> ((\<exists>k \<in> set confirm_delivery_fields. falsy (field req k)) \<longrightarrow>
       post_confirm_delivery w req st
         = (\<lparr>status = 400, json = ErrorBody ''Missing required fields''\<rparr>, [], st)
       \<and> (\<forall>k \<in> set confirm_delivery_fields. falsy (field req k) \<longrightarrow>
            post_confirm_delivery w (without_field req k) st = post_confirm_delivery w req st))
   \<and> ((\<exists>k \<in> set store_document_fields. falsy (field req k)) \<longrightarrow>
       post_store_document w req st
         = (\<lparr>status = 400, json = ErrorBody ''Missing required fields''\<rparr>, [], st)
       \<and> (\<forall>k \<in> set store_document_fields. falsy (field req k) \<longrightarrow>
            post_store_document w (without_field req k) st = post_store_document w req st))"
proof -
  have u: "\<And>k. falsy (field (without_field req k) k)"
    by (simp add: field_without_field)
  have c: "(\<exists>k \<in> set create_escrow_fields. falsy (field req k)) \<longrightarrow>
       post_create_escrow w req st
         = (\<lparr>status = 400, json = ErrorBody ''Missing required fields''\<rparr>, [], st)
       \<and> (\<forall>k \<in> set create_escrow_fields. falsy (field req k) \<longrightarrow>
            post_create_escrow w (without_field req k) st = post_create_escrow w req st)"
    using missing_create[of req w st] missing_create[of "without_field req _" w st] u
    by (auto simp: respond_def)
  have f: "(\<exists>k \<in> set fund_escrow_fields. falsy (field req k)) \<longrightarrow>
       post_fund_escrow w req st
         = (\<lparr>status = 400, json = ErrorBody ''Missing required fields''\<rparr>, [], st)
       \<and> (\<forall>k \<in> set fund_escrow_fields. falsy (field req k) \<longrightarrow>
            post_fund_escrow w (without_field req k) st = post_fund_escrow w req st)"
    using missing_fund[of req w st] missing_fund[of "without_field req _" w st] u
    by (auto simp: respond_def)
  have d: "(\<exists>k \<in> set confirm_delivery_fields. falsy (field req k)) \<longrightarrow>
       post_confirm_delivery w req st
         = (\<lparr>status = 400, json = ErrorBody ''Missing required fields''\<rparr>, [], st)
       \<and> (\<forall>k \<in> set confirm_delivery_fields. falsy (field req k) \<longrightarrow>
            post_confirm_delivery w (without_field req k) st = post_confirm_delivery w req st)"
    using missing_confirm[of req w st] missing_confirm[of "without_field req _" w st] u
    by (auto simp: respond_def)
  have s: "(\<exists>k \<in> set store_document_fields. falsy (field req k)) \<longrightarrow>
       post_store_document w req st
         = (\<lparr>status = 400, json = ErrorBody ''Missing required fields''\<rparr>, [], st)
       \<and> (\<forall>k \<in> set store_document_fields. falsy (field req k) \<longrightarrow>
            post_store_document w (without_field req k) st = post_store_document w req st)"
    using missing_store[of req w st] missing_store[of "without_field req _" w st] u
    by (auto simp: respond_def)
  from c f d s show ?thesis by blast
qed

text \<open>
  A create-escrow body with \<open>amount\<close> 0 and a fund-escrow body with an empty
  signature.
\<close>

theorem missing_fields_are_falsy_fields_witness:
  "post_create_escrow sample_world zero_amount_request Map.empty
     = (\<lparr>status = 400, json = ErrorBody ''Missing required fields''\<rparr>, [], Map.empty)
   \<and> post_fund_escrow sample_world empty_signature_request Map.empty
     = (\<lparr>status = 400, json = ErrorBody ''Missing required fields''\<rparr>, [], Map.empty)"
proof -
  have a: "\<exists>k \<in> set create_escrow_fields. falsy (field zero_amount_request k)"
    by (simp add: create_escrow_fields_def field_def zero_amount_request_def str_def)
  have b: "\<exists>k \<in> set fund_escrow_fields. falsy (field empty_signature_request k)"
    by (simp add: fund_escrow_fields_def field_def empty_signature_request_def str_def)
  from missing_fields_are_falsy_fields[of zero_amount_request sample_world Map.empty] a
    missing_fields_are_falsy_fields[of empty_signature_request sample_world Map.empty] b
  show ?thesis by blast
qed

section \<open>The health route\<close>

lemma serve_health_sample:
  "serve sample_world health_request health st =
     (case consume (Finite 100) 3600 1000 st (str ''10.0.0.1'') of
        (Inr u, st') \<Rightarrow>
          (\<lparr>status = 200, json = HealthBody ''healthy'' (now_iso sample_world) (uptime sample_world)\<rparr>,
           [], st')
      | (Inl msBeforeNext, st') \<Rightarrow>
          (\<lparr>status = 429, json = TooManyRequestsBody ((msBeforeNext + 500) div 1000)\<rparr>, [], st'))"
  by (simp add: serve_def apiKeyMiddleware_def rateLimitMiddleware_def health_def respond_def
      rateLimiter_points_def rateLimiter_duration_def env_or_def health_request_def
      sample_world_def split: prod.splits sum.splits)

lemma limiter_after_counts:
  "0 < n \<Longrightarrow> n \<le> 100 \<Longrightarrow> limiter_after n = [str ''10.0.0.1'' \<mapsto> (n, 3601000)]"
proof (induction n)
  case 0
  then show ?case by simp
next
  case (Suc n)
  show ?case
  proof (cases "n = 0")
    case True
    then show ?thesis
      by (simp add: serve_health_sample consume_def)
  next
    case False
    with Suc.prems have n: "0 < n" "n \<le> 100" "n < 100"
      by simp_all
    have "limiter_after (Suc n) =
            snd (snd (serve sample_world health_request health [str ''10.0.0.1'' \<mapsto> (n, 3601000)]))"
      by (simp only: limiter_after.simps Suc.IH[OF n(1,2)])
    also from n(3) have "\<dots> = [str ''10.0.0.1'' \<mapsto> (Suc n, 3601000)]"
      by (simp add: serve_health_sample consume_def fun_eq_iff)
    finally show ?thesis .
  qed
qed

text \<open>
  Claim C6 as stated fails: the rate limiting middleware runs for every request, the
  health route included. After 100 health requests from one address have been served,
  the next one from that address is answered 429.
\<close>

theorem health_rate_limited_counterexample:
  "path health_request = str ''/health''
   \<and> fst (serve sample_world health_request health (limiter_after 100))
       = \<lparr>status = 429, json = TooManyRequestsBody 3600\<rparr>"
proof -
  have "limiter_after 100 = [str ''10.0.0.1'' \<mapsto> (100, 3601000)]"
    by (rule limiter_after_counts) simp_all
  moreover have "path health_request = str ''/health''"
    by (simp add: health_request_def)
  ultimately show ?thesis
    by (simp add: serve_health_sample consume_def)
qed

text \<open>
  Claim C6, amended. A request for \<open>/health\<close> is never answered 401, whatever API
  key is configured or sent; it consumes a point of the rate limiter like any other
  request, and is answered with status, timestamp and uptime when the limiter allows it
  and with 429 when the limiter rejects it.
\<close>

theorem health_skips_api_key_only:
  assumes "path req = str ''/health''"
  shows "serve w req health st =
          (case consume (rateLimiter_points w) rateLimiter_duration (now_ms w) st (ip req) of
             (Inr u, st') \<Rightarrow>
               (\<lparr>status = 200, json = HealthBody ''healthy'' (now_iso w) (uptime w)\<rparr>, [], st')
           | (Inl msBeforeNext, st') \<Rightarrow>
               (\<lparr>status = 429, json = TooManyRequestsBody ((msBeforeNext + 500) div 1000)\<rparr>, [], st'))
       \<and> status (fst (serve w req health st)) \<noteq> 401"
  using assms
  by (simp add: serve_def apiKeyMiddleware_def rateLimitMiddleware_def health_def respond_def
      split: prod.splits sum.splits)

text \<open>
  With an API key configured and none sent, the first health request is answered.
\<close>

theorem health_skips_api_key_only_witness:
  "serve (sample_world\<lparr>API_KEY := Some (str ''secret'')\<rparr>) health_request health Map.empty
     = (\<lparr>status = 200,
         json = HealthBody ''healthy'' (str ''2024-01-01T00:00:01.000Z'') (Finite 1)\<rparr>, [],
        [str ''10.0.0.1'' \<mapsto> (1, 3601000)])"
proof -
  have p: "path health_request = str ''/health''"
    by (simp add: health_request_def)
  have c: "consume (rateLimiter_points (sample_world\<lparr>API_KEY := Some (str ''secret'')\<rparr>))
             rateLimiter_duration (now_ms (sample_world\<lparr>API_KEY := Some (str ''secret'')\<rparr>))
             Map.empty (ip health_request)
           = (Inr (), [str ''10.0.0.1'' \<mapsto> (1, 3601000)])"
    by (simp add: consume_def rateLimiter_points_def rateLimiter_duration_def env_or_def
        health_request_def sample_world_def)
  have n: "now_iso (sample_world\<lparr>API_KEY := Some (str ''secret'')\<rparr>) = str ''2024-01-01T00:00:01.000Z''"
    "uptime (sample_world\<lparr>API_KEY := Some (str ''secret'')\<rparr>) = Finite 1"
    by (simp_all add: sample_world_def)
  from health_skips_api_key_only[OF p, of "sample_world\<lparr>API_KEY := Some (str ''secret'')\<rparr>" Map.empty]
  show ?thesis unfolding c n by simp
qed


end
